theory Spec2Isabelle
  imports Complex_Main
begin

section \<open>Values, errors and indexing\<close>

text \<open>
  The plotting module \<^verbatim>\<open>pyswarms/utils/plotters/plotters.py\<close> works on numeric arrays.
  Array entries are modelled as exact rationals (the rounding of floating point is outside
  the model); an array built from Python's \<^verbatim>\<open>None\<close> holds the object \<^verbatim>\<open>None\<close>,
  which is the second kind of cell. A one-dimensional array is a list, a two-dimensional
  array is the list of its rows.
\<close>

datatype error = IndexError | ValueError | ZeroDivisionError

datatype cell = NoneCell | Num rat

type_synonym array2 = "cell list list"

type_synonym grid = "rat list list"

text \<open>
  Python's \<^verbatim>\<open>seq[i]\<close>, and an index into one axis of an array: a negative index counts
  from the end, anything outside \<^verbatim>\<open>-n .. n-1\<close> raises \<^verbatim>\<open>IndexError\<close>.
\<close>

definition norm_index :: "nat \<Rightarrow> int \<Rightarrow> error + nat" where
  "norm_index n i =
     (let j = (if i < 0 then int n + i else i)
      in if 0 \<le> j \<and> j < int n then Inr (nat j) else Inl IndexError)"

text \<open>An exception ends the computation: the next step runs on a result only.\<close>

definition and_then :: "error + 'a \<Rightarrow> ('a \<Rightarrow> error + 'b) \<Rightarrow> error + 'b" where
  "and_then r f = (case r of Inl e \<Rightarrow> Inl e | Inr v \<Rightarrow> f v)"

definition py_index :: "'a list \<Rightarrow> int \<Rightarrow> error + 'a" where
  "py_index xs i = and_then (norm_index (length xs) i) (\<lambda>k. Inr (xs ! k))"

text \<open>
  \<^verbatim>\<open>a is b\<close> on two integers that were computed separately (a \<^verbatim>\<open>len(...)\<close>, an
  entry of a shape tuple): CPython keeps one object for each integer from -5 to 256 and
  makes a new object for every other result, so the two are the same object exactly when
  they are equal and inside that range.
\<close>

definition py_is :: "int \<Rightarrow> int \<Rightarrow> bool" where
  "py_is a b = (a = b \<and> - 5 \<le> a \<and> a \<le> 256)"

text \<open>The second entry of \<^verbatim>\<open>a.shape\<close> for a two-dimensional array with at least one row.\<close>

definition shape1 :: "'a list list \<Rightarrow> nat" where
  "shape1 a = (case a of [] \<Rightarrow> 0 | r # _ \<Rightarrow> length r)"

section \<open>The numpy operations used by \<^verbatim>\<open>_mesh\<close>\<close>

text \<open>
  \<^verbatim>\<open>np.arange(start, stop, step)\<close> has \<^verbatim>\<open>ceil((stop - start) / step)\<close> entries (none
  when that is not positive), entry \<^verbatim>\<open>i\<close> being \<^verbatim>\<open>start + i * step\<close>; a zero step
  raises \<^verbatim>\<open>ZeroDivisionError\<close>.
\<close>

definition arange_vals :: "rat \<Rightarrow> rat \<Rightarrow> rat \<Rightarrow> rat list" where
  "arange_vals start stop step =
     map (\<lambda>i. start + of_nat i * step) [0 ..< nat \<lceil>(stop - start) / step\<rceil>]"

definition arange :: "rat \<Rightarrow> rat \<Rightarrow> rat \<Rightarrow> error + rat list" where
  "arange start stop step =
     (if step = 0 then Inl ZeroDivisionError else Inr (arange_vals start stop step))"

text \<open>\<^verbatim>\<open>np.meshgrid(x, y)\<close>: both results have one row per entry of \<^verbatim>\<open>y\<close>.\<close>

definition meshgrid :: "rat list \<Rightarrow> rat list \<Rightarrow> grid \<times> grid" where
  "meshgrid x y = (replicate (length y) x, map (\<lambda>v. replicate (length x) v) y)"

text \<open>\<^verbatim>\<open>np.vstack([a, b]).T\<close> for two flat arrays of one length: the rows \<^verbatim>\<open>[a[k], b[k]]\<close>.\<close>

definition vstack_T :: "rat list \<Rightarrow> rat list \<Rightarrow> array2" where
  "vstack_T a b = map (\<lambda>(u, v). [Num u, Num v]) (zip a b)"

text \<open>\<^verbatim>\<open>a[:, k]\<close> for an in-range column \<^verbatim>\<open>k\<close>.\<close>

definition column :: "nat \<Rightarrow> array2 \<Rightarrow> cell list" where
  "column k a = map (\<lambda>r. r ! k) a"

text \<open>
  \<^verbatim>\<open>np.tile(best_pos, (n, 1))\<close>: \<^verbatim>\<open>n\<close> copies of \<^verbatim>\<open>best_pos\<close> as rows. For
  \<^verbatim>\<open>best_pos = None\<close> numpy first makes the array \<^verbatim>\<open>[[None]]\<close>, so the result has one
  column, holding \<^verbatim>\<open>None\<close>. The width is kept beside the rows, since it is checked even
  when there is no row. A given \<^verbatim>\<open>best_pos\<close> holds floats: the conversion that numpy makes
  when the tiled array has an integer type is not modelled.
\<close>

definition tile_width :: "rat list option \<Rightarrow> nat" where
  "tile_width best_pos = (case best_pos of None \<Rightarrow> 1 | Some bp \<Rightarrow> length bp)"

definition tile_row :: "rat list option \<Rightarrow> cell list" where
  "tile_row best_pos = (case best_pos of None \<Rightarrow> [NoneCell] | Some bp \<Rightarrow> map Num bp)"

definition tile :: "rat list option \<Rightarrow> nat \<Rightarrow> array2" where
  "tile best_pos n = replicate n (tile_row best_pos)"

text \<open>\<^verbatim>\<open>a[:, i] = col\<close> on an array of the given width.\<close>

definition set_column :: "nat \<Rightarrow> array2 \<Rightarrow> int \<Rightarrow> cell list \<Rightarrow> error + array2" where
  "set_column width a i col =
     and_then (norm_index width i) (\<lambda>k. Inr (map (\<lambda>(r, v). r[k := v]) (zip a col)))"

text \<open>
  \<^verbatim>\<open>np.array_split(a, n)\<close> for a positive \<^verbatim>\<open>n\<close>: \<^verbatim>\<open>n\<close> consecutive sections, the first
  \<^verbatim>\<open>len(a) % n\<close> of them one row longer than the others.
\<close>

definition section_sizes :: "nat \<Rightarrow> nat \<Rightarrow> nat list" where
  "section_sizes len n =
     replicate (len mod n) (len div n + 1) @ replicate (n - len mod n) (len div n)"

fun split_sizes :: "nat list \<Rightarrow> 'a list \<Rightarrow> 'a list list" where
  "split_sizes [] xs = []"
| "split_sizes (k # ks) xs = take k xs # split_sizes ks (drop k xs)"

definition array_split :: "'a list \<Rightarrow> nat \<Rightarrow> 'a list list" where
  "array_split a n = split_sizes (section_sizes (length a) n) a"

text \<open>
  \<^verbatim>\<open>z.reshape((rows, cols))\<close>: \<^verbatim>\<open>ValueError\<close> unless \<^verbatim>\<open>z\<close> has \<^verbatim>\<open>rows * cols\<close>
  entries.
\<close>

definition reshape :: "rat list \<Rightarrow> nat \<Rightarrow> nat \<Rightarrow> error + grid" where
  "reshape z rows cols =
     (if length z = rows * cols
      then Inr (map (\<lambda>j. take cols (drop (j * cols) z)) [0 ..< rows])
      else Inl ValueError)"

section \<open>\<^verbatim>\<open>_mesh\<close>\<close>

text \<open>
  The function \<^verbatim>\<open>_mesh\<close> is \<open>mesh\<close> here, and \<^verbatim>\<open>_animate\<close> below is \<open>animate\<close>.
  The \<^verbatim>\<open>Mesher\<close> class is declared in \<^verbatim>\<open>formatters.py\<close>; the record has the attributes
  that this module reads. The objective function takes the array of points, one per row,
  and returns one flat array.
\<close>

record mesher =
  func :: "array2 \<Rightarrow> rat list"
  delta :: rat
  m_limits :: "(rat \<times> rat) list"
  levels :: "rat list"
  alpha :: rat

text \<open>
  The multi-dimension branch of \<^verbatim>\<open>_mesh\<close> (lines 503 to 508): tile \<^verbatim>\<open>best_pos\<close>, then
  write the grid's x values into column \<^verbatim>\<open>x_index\<close> and its y values into column
  \<^verbatim>\<open>y_index\<close>.
\<close>

definition prepare :: "int \<Rightarrow> int \<Rightarrow> rat list option \<Rightarrow> array2 \<Rightarrow> error + array2" where
  "prepare x_index y_index best_pos xypairs =
     (if x_index \<noteq> 0 \<or> y_index \<noteq> 1 \<or> best_pos \<noteq> None then
        and_then (set_column (tile_width best_pos) (tile best_pos (length xypairs))
                    x_index (column 0 xypairs)) (\<lambda>best_pos_column.
        set_column (tile_width best_pos) best_pos_column y_index (column 1 xypairs))
      else Inr xypairs)"

text \<open>
  The evaluation (lines 513 to 526): one call of \<^verbatim>\<open>func\<close> without a pool; with a pool,
  \<^verbatim>\<open>func\<close> mapped over the sections of \<^verbatim>\<open>np.array_split\<close> and the results concatenated.
  \<^verbatim>\<open>mp.Pool(n)\<close> raises \<^verbatim>\<open>ValueError\<close> for \<^verbatim>\<open>n < 1\<close>.
\<close>

definition evaluate :: "(array2 \<Rightarrow> rat list) \<Rightarrow> int option \<Rightarrow> array2 \<Rightarrow> error + rat list" where
  "evaluate f n_processes xypairs =
     (case n_processes of
        None \<Rightarrow> Inr (f xypairs)
      | Some n \<Rightarrow>
          if n < 1 then Inl ValueError
          else Inr (concat (map f (array_split xypairs (nat n)))))"

definition mesh ::
  "mesher \<Rightarrow> int option \<Rightarrow> int \<Rightarrow> int \<Rightarrow> rat list option \<Rightarrow> error + (grid \<times> grid \<times> grid)"
where
  "mesh m n_processes x_index y_index best_pos =
     and_then (py_index (m_limits m) x_index) (\<lambda>xlim.
     and_then (py_index (m_limits m) y_index) (\<lambda>ylim.
     and_then (arange (fst xlim) (snd xlim) (delta m)) (\<lambda>x.
     and_then (arange (fst ylim) (snd ylim) (delta m)) (\<lambda>y.
       let (xx, yy) = meshgrid x y;
           xypairs = vstack_T (concat xx) (concat yy)
       in and_then (prepare x_index y_index best_pos xypairs) (\<lambda>pts.
          and_then (evaluate (func m) n_processes pts) (\<lambda>z.
          and_then (reshape z (length y) (length x)) (\<lambda>zz.
            Inr (xx, yy, zz))))))))"

section \<open>Figures, warnings and the formatter classes\<close>

text \<open>
  What the module does to matplotlib is recorded on the axes: the title, the axis labels and
  limits it sets, and the artists it adds, in order. Rendering is not modelled. A canvas
  \<^verbatim>\<open>(fig, ax)\<close> is represented by its axes. \<^verbatim>\<open>has_zlim\<close> says whether the axes are
  three-dimensional (\<^verbatim>\<open>hasattr(ax, 'get_zlim')\<close>).
\<close>

datatype artist =
    Line "rat list" "rat list" string
  | Contour grid grid grid "rat list"
  | Surface grid grid grid string rat
  | Mark "rat list"
  | Scatter

record axes =
  has_zlim :: bool
  ax_title :: string
  xlabel :: string
  ylabel :: string
  zlabel :: string
  xlim :: "(rat \<times> rat) option"
  ylim :: "(rat \<times> rat) option"
  zlim :: "(rat \<times> rat) option"
  legend_shown :: bool
  artists :: "artist list"

text \<open>The axes of \<^verbatim>\<open>plt.subplots(1, 1)\<close>, and those of \<^verbatim>\<open>Axes3D(fig)\<close>.\<close>

definition subplots :: axes where
  "subplots = \<lparr>has_zlim = False, ax_title = [], xlabel = [], ylabel = [], zlabel = [],
     xlim = None, ylim = None, zlim = None, legend_shown = False, artists = []\<rparr>"

definition Axes3D :: axes where
  "Axes3D = subplots\<lparr>has_zlim := True\<rparr>"

definition add_artist :: "artist \<Rightarrow> axes \<Rightarrow> axes" where
  "add_artist a ax = ax\<lparr>artists := artists ax @ [a]\<rparr>"

text \<open>
  \<^verbatim>\<open>Designer\<close> and \<^verbatim>\<open>Animator\<close> are declared in \<^verbatim>\<open>formatters.py\<close>; the records have the
  attributes that decide what is drawn (sizes and fonts are left out). Where the module
  builds one with some attributes given, the others are the class's own defaults, which the
  functions below take as their first arguments.
\<close>

record designer =
  label :: "string list"
  limits :: "(rat \<times> rat) list"
  legend :: string
  colormap :: string

record animator =
  interval :: int
  repeat :: bool
  repeat_delay :: "int option"

text \<open>The scatter plot that the animation moves, and the animation itself.\<close>

record scatter =
  offsets :: array2
  offsets3d :: array2

record anim =
  an_axes :: axes
  frames :: "nat list"
  fargs_data :: "array2 list"
  fargs_plot :: scatter
  an_interval :: int
  an_repeat :: bool
  an_repeat_delay :: "int option"

text \<open>
  A call returns the warnings it logged, in order, and either the exception that ended it
  or its result.
\<close>

type_synonym 'a res = "string list \<times> (error + 'a)"

definition ok :: "'a \<Rightarrow> 'a res" where
  "ok v = ([], Inr v)"

definition warn :: "string \<Rightarrow> unit res" where
  "warn s = ([s], Inr ())"

definition warn_if :: "bool \<Rightarrow> string \<Rightarrow> unit res" where
  "warn_if b s = (if b then warn s else ok ())"

definition lift :: "error + 'a \<Rightarrow> 'a res" where
  "lift r = ([], r)"

definition next_do :: "'a res \<Rightarrow> ('a \<Rightarrow> 'b res) \<Rightarrow> 'b res" where
  "next_do r f =
     (case snd r of
        Inl e \<Rightarrow> (fst r, Inl e)
      | Inr v \<Rightarrow> (fst r @ fst (f v), snd (f v)))"

section \<open>\<^verbatim>\<open>plot_cost_history\<close>\<close>

text \<open>The designer in use, lines 117 and 118.\<close>

definition cost_designer :: "designer \<Rightarrow> designer option \<Rightarrow> designer" where
  "cost_designer Designer designer =
     (case designer of
        None \<Rightarrow> Designer\<lparr>label := [''Iterations'', ''Cost''], legend := ''Cost''\<rparr>
      | Some d \<Rightarrow> d)"

definition plot_cost_history ::
  "designer \<Rightarrow> rat list \<Rightarrow> axes option \<Rightarrow> string \<Rightarrow> designer option \<Rightarrow> error + axes"
where
  "plot_cost_history Designer cost_history ax title designer =
     (let iters = length cost_history;
          designer = cost_designer Designer designer;
          ax = (case ax of None \<Rightarrow> subplots | Some a \<Rightarrow> a);
          ax = add_artist (Line (map of_nat [0 ..< iters]) cost_history (legend designer)) ax;
          ax = ax\<lparr>ax_title := title, legend_shown := True\<rparr>
      in and_then (py_index (label designer) 0) (\<lambda>l0.
         and_then (py_index (label designer) 1) (\<lambda>l1.
           Inr (ax\<lparr>xlabel := l0, ylabel := l1\<rparr>))))"

section \<open>\<^verbatim>\<open>_animate\<close>\<close>

definition animate :: "int \<Rightarrow> array2 list \<Rightarrow> scatter \<Rightarrow> error + scatter" where
  "animate i data plot =
     and_then (py_index data i) (\<lambda>current_pos.
       if shape1 current_pos = 2 then Inr (plot\<lparr>offsets := current_pos\<rparr>)
       else Inr (plot\<lparr>offsets3d := transpose current_pos\<rparr>))"

section \<open>\<^verbatim>\<open>plot_contour\<close>\<close>

text \<open>
  \<^verbatim>\<open>np.array(pos_history)[:, :, cols]\<close>: the history must be one rectangular block
  (\<^verbatim>\<open>ValueError\<close> otherwise), and every entry of \<^verbatim>\<open>cols\<close> an index into its last axis.
\<close>

definition rectangular :: "array2 list \<Rightarrow> bool" where
  "rectangular ph =
     (case ph of
        [] \<Rightarrow> True
      | first # _ \<Rightarrow>
          list_all (\<lambda>frame. length frame = length first \<and>
                      list_all (\<lambda>row. length row = shape1 first) frame) ph)"

fun norm_indices :: "nat \<Rightarrow> int list \<Rightarrow> error + nat list" where
  "norm_indices n [] = Inr []"
| "norm_indices n (i # is) =
     and_then (norm_index n i) (\<lambda>k. and_then (norm_indices n is) (\<lambda>ks. Inr (k # ks)))"

definition take_columns :: "array2 list \<Rightarrow> int list \<Rightarrow> error + array2 list" where
  "take_columns ph cols =
     (if \<not> rectangular ph then Inl ValueError
      else and_then (norm_indices (shape1 (hd ph)) cols) (\<lambda>ks.
             Inr (map (map (\<lambda>row. map (\<lambda>k. row ! k) ks)) ph)))"

text \<open>
  The input checks of \<^verbatim>\<open>plot_contour\<close>, lines 222 to 235. All comparisons with \<^verbatim>\<open>is\<close> are
  on integers; \<^verbatim>\<open>x is y\<close> compares the two objects that the caller passed, taken here to
  be made separately.
\<close>

definition checks_contour :: "designer \<Rightarrow> int \<Rightarrow> int \<Rightarrow> int \<Rightarrow> unit res" where
  "checks_contour designer n_dim x y =
     next_do (warn_if (n_dim < 2)
       ''Given pos_history has too less dimensions to be plotted in 2D.'') (\<lambda>_.
     next_do (warn_if (\<not> py_is (int (length (limits designer))) n_dim)
       ''Limits in designer has incorrect dimensions.'') (\<lambda>_.
     next_do (warn_if (\<not> py_is (int (length (label designer))) n_dim)
       ''Labels in designer has incorrect dimensions.'') (\<lambda>_.
     next_do (warn_if (x < 0 \<or> x \<ge> n_dim)
       ''Index of dimension to plot on x-axis out of bound.'') (\<lambda>_.
     next_do (warn_if (y < 0 \<or> y \<ge> n_dim)
       ''Index of dimension to plot on y-axis out of bound.'') (\<lambda>_.
     warn_if (py_is x y)
       ''Index for plotting x- and y-axis is the same, that is probably not what you want.'')))))"

text \<open>
  The contour map, lines 248 to 254. What matplotlib requires of the grid that it draws is
  not modelled.
\<close>

definition contour_map ::
  "axes \<Rightarrow> mesher option \<Rightarrow> int \<Rightarrow> int option \<Rightarrow> int \<Rightarrow> int \<Rightarrow> rat list option \<Rightarrow> axes res"
where
  "contour_map ax mesher n_dim n_processes x y best_pos =
     (case mesher of
        None \<Rightarrow> ok ax
      | Some m \<Rightarrow>
          next_do (warn_if (\<not> py_is (int (length (m_limits m))) n_dim)
            ''Limits in mesher has incorrect dimensions.'') (\<lambda>_.
          next_do (lift (mesh m n_processes x y best_pos)) (\<lambda>(xx, yy, zz).
            ok (add_artist (Contour xx yy zz (levels m)) ax))))"

text \<open>The mark of the optimum, lines 257 to 265.\<close>

definition mark_contour :: "axes \<Rightarrow> rat list option \<Rightarrow> int \<Rightarrow> int \<Rightarrow> int \<Rightarrow> axes res" where
  "mark_contour ax mark n_dim x y =
     (case mark of
        None \<Rightarrow> ok ax
      | Some mk \<Rightarrow>
          if length mk < 2 then
            next_do (warn ''Given mark has too less values to be plotted.'') (\<lambda>_. ok ax)
          else if py_is (int (length mk)) 2 then
            next_do (lift (py_index mk 0)) (\<lambda>a.
            next_do (lift (py_index mk 1)) (\<lambda>b.
              ok (add_artist (Mark [a, b]) ax)))
          else if py_is (int (length mk)) n_dim then
            next_do (lift (py_index mk x)) (\<lambda>a.
            next_do (lift (py_index mk y)) (\<lambda>b.
              ok (add_artist (Mark [a, b]) ax)))
          else
            next_do (warn (''Number of dimensions of given mark does not fit plotting '' @
              ''dimension nor problem dimension.'')) (\<lambda>_. ok ax))"

text \<open>The designer in use, lines 202 to 205: the one given, or the defaults of this plot.\<close>

definition contour_designer :: "designer \<Rightarrow> designer option \<Rightarrow> designer" where
  "contour_designer Designer designer =
     (case designer of
        None \<Rightarrow> Designer\<lparr>label := [''x-axis'', ''y-axis''], limits := [(- 1, 1), (- 1, 1)]\<rparr>
      | Some d \<Rightarrow> d)"

definition plot_contour ::
  "designer \<Rightarrow> animator \<Rightarrow> array2 list \<Rightarrow> axes option \<Rightarrow> string \<Rightarrow> rat list option \<Rightarrow>
   designer option \<Rightarrow> mesher option \<Rightarrow> animator option \<Rightarrow> int option \<Rightarrow> int \<Rightarrow> int \<Rightarrow>
   rat list option \<Rightarrow> anim res"
where
  "plot_contour Designer Animator pos_history canvas title mark designer mesher animator
       n_processes x y best_pos =
     (let designer = contour_designer Designer designer;
          animator = (case animator of None \<Rightarrow> Animator | Some a \<Rightarrow> a);
          ax = (case canvas of None \<Rightarrow> subplots | Some a \<Rightarrow> a)
      in next_do (lift (py_index pos_history 0)) (\<lambda>first.
         let n_dim = int (shape1 first) in
         next_do (checks_contour designer n_dim x y) (\<lambda>_.
         let n_iters = length pos_history;
             ax = ax\<lparr>ax_title := title\<rparr> in
         next_do (lift (py_index (label designer) x)) (\<lambda>lx.
         next_do (lift (py_index (label designer) y)) (\<lambda>ly.
         next_do (lift (py_index (limits designer) x)) (\<lambda>limx.
         next_do (lift (py_index (limits designer) y)) (\<lambda>limy.
         let ax = ax\<lparr>xlabel := lx, ylabel := ly, xlim := Some limx, ylim := Some limy\<rparr> in
         next_do (contour_map ax mesher n_dim n_processes x y best_pos) (\<lambda>ax.
         next_do (mark_contour ax mark n_dim x y) (\<lambda>ax.
         let plot = \<lparr>offsets = [], offsets3d = []\<rparr>;
             ax = add_artist Scatter ax in
         next_do (lift (take_columns pos_history [x, y])) (\<lambda>data.
           ok \<lparr>an_axes = ax, frames = [0 ..< n_iters], fargs_data = data,
               fargs_plot = plot, an_interval = interval animator,
               an_repeat = repeat animator,
               an_repeat_delay = repeat_delay animator\<rparr>))))))))))"

section \<open>\<^verbatim>\<open>plot_surface\<close>\<close>

text \<open>
  The position history of \<^verbatim>\<open>plot_surface\<close> carries the fitness in its last column, so the
  number of dimensions is one less than the width. The input checks, lines 405 to 418.
\<close>

definition checks_surface :: "designer \<Rightarrow> int \<Rightarrow> int \<Rightarrow> int \<Rightarrow> unit res" where
  "checks_surface designer n_dim x y =
     next_do (warn_if (n_dim < 2)
       ''Given pos_history has too less dimensions to be plotted in 3D.'') (\<lambda>_.
     next_do (warn_if (\<not> py_is (int (length (limits designer))) (n_dim + 1))
       ''Limits in designer has incorrect dimensions.'') (\<lambda>_.
     next_do (warn_if (\<not> py_is (int (length (label designer))) (n_dim + 1))
       ''Labels in designer has incorrect dimensions.'') (\<lambda>_.
     next_do (warn_if (x < 0 \<or> x \<ge> n_dim)
       ''Index of dimension to plot on x-axis out of bound.'') (\<lambda>_.
     next_do (warn_if (y < 0 \<or> y \<ge> n_dim)
       ''Index of dimension to plot on y-axis out of bound.'') (\<lambda>_.
     warn_if (py_is x y)
       ''Index for plotting x- and y-axis is the same, that is probably not what you want.'')))))"

text \<open>The surface, lines 436 to 444.\<close>

definition surface_map ::
  "axes \<Rightarrow> designer \<Rightarrow> mesher option \<Rightarrow> int \<Rightarrow> int option \<Rightarrow> int \<Rightarrow> int \<Rightarrow>
   rat list option \<Rightarrow> axes res"
where
  "surface_map ax designer mesher n_dim n_processes x y best_pos =
     (case mesher of
        None \<Rightarrow> ok ax
      | Some m \<Rightarrow>
          next_do (warn_if (\<not> py_is (int (length (m_limits m))) n_dim)
            ''Limits in mesher has incorrect dimensions.'') (\<lambda>_.
          next_do (lift (mesh m n_processes x y best_pos)) (\<lambda>(xx, yy, zz).
            ok (add_artist (Surface xx yy zz (colormap designer) (alpha m)) ax))))"

text \<open>The mark of the optimum, lines 447 to 455; here the lengths are compared by value.\<close>

definition mark_surface :: "axes \<Rightarrow> rat list option \<Rightarrow> int \<Rightarrow> int \<Rightarrow> int \<Rightarrow> axes res" where
  "mark_surface ax mark n_dim x y =
     (case mark of
        None \<Rightarrow> ok ax
      | Some mk \<Rightarrow>
          if length mk < 3 then
            next_do (warn ''Given mark has too less values to be plotted.'') (\<lambda>_. ok ax)
          else if length mk = 3 then
            next_do (lift (py_index mk 0)) (\<lambda>a.
            next_do (lift (py_index mk 1)) (\<lambda>b.
            next_do (lift (py_index mk 2)) (\<lambda>c.
              ok (add_artist (Mark [a, b, c]) ax))))
          else if int (length mk) = n_dim + 1 then
            next_do (lift (py_index mk x)) (\<lambda>a.
            next_do (lift (py_index mk y)) (\<lambda>b.
            next_do (lift (py_index mk n_dim)) (\<lambda>c.
              ok (add_artist (Mark [a, b, c]) ax))))
          else
            next_do (warn (''Number of dimensions of given mark does not fit plotting '' @
              ''dimension nor problem dimension.'')) (\<lambda>_. ok ax))"

text \<open>The three-dimensional axes, lines 421 and 422.\<close>

definition initialize_3d :: "axes \<Rightarrow> axes" where
  "initialize_3d ax = (if \<not> has_zlim ax then Axes3D else ax)"

text \<open>The designer in use, lines 381 to 386.\<close>

definition surface_designer :: "designer \<Rightarrow> designer option \<Rightarrow> designer" where
  "surface_designer Designer designer =
     (case designer of
        None \<Rightarrow> Designer\<lparr>label := [''x-axis'', ''y-axis'', ''z-axis''],
                          limits := [(- 1, 1), (- 1, 1), (- 1, 1)],
                          colormap := ''viridis''\<rparr>
      | Some d \<Rightarrow> d)"

definition plot_surface ::
  "designer \<Rightarrow> animator \<Rightarrow> array2 list \<Rightarrow> axes option \<Rightarrow> string \<Rightarrow> designer option \<Rightarrow>
   mesher option \<Rightarrow> animator option \<Rightarrow> rat list option \<Rightarrow> int option \<Rightarrow> int \<Rightarrow> int \<Rightarrow>
   rat list option \<Rightarrow> anim res"
where
  "plot_surface Designer Animator pos_history canvas title designer mesher animator mark
       n_processes x y best_pos =
     (let designer = surface_designer Designer designer;
          animator = (case animator of None \<Rightarrow> Animator | Some a \<Rightarrow> a);
          ax = (case canvas of None \<Rightarrow> subplots | Some a \<Rightarrow> a)
      in next_do (lift (py_index pos_history 0)) (\<lambda>first.
         let n_dim = int (shape1 first) - 1 in
         next_do (checks_surface designer n_dim x y) (\<lambda>_.
         let ax = initialize_3d ax;
             n_iters = length pos_history;
             ax = ax\<lparr>ax_title := title\<rparr> in
         next_do (lift (py_index (label designer) x)) (\<lambda>lx.
         next_do (lift (py_index (label designer) y)) (\<lambda>ly.
         next_do (lift (py_index (label designer) n_dim)) (\<lambda>lz.
         next_do (lift (py_index (limits designer) x)) (\<lambda>limx.
         next_do (lift (py_index (limits designer) y)) (\<lambda>limy.
         next_do (lift (py_index (limits designer) n_dim)) (\<lambda>limz.
         let ax = ax\<lparr>xlabel := lx, ylabel := ly, zlabel := lz,
                    xlim := Some limx, ylim := Some limy, zlim := Some limz\<rparr> in
         next_do (surface_map ax designer mesher n_dim n_processes x y best_pos) (\<lambda>ax.
         next_do (mark_surface ax mark n_dim x y) (\<lambda>ax.
         let plot = \<lparr>offsets = [], offsets3d = []\<rparr>;
             ax = add_artist Scatter ax in
         next_do (lift (take_columns pos_history [x, y, int (shape1 first) - 1])) (\<lambda>data.
           ok \<lparr>an_axes = ax, frames = [0 ..< n_iters], fargs_data = data,
               fargs_plot = plot, an_interval = interval animator,
               an_repeat = repeat animator,
               an_repeat_delay = repeat_delay animator\<rparr>))))))))))))"

section \<open>Notions used in the statements\<close>

text \<open>
  The index that Python accepts for a sequence of \<^verbatim>\<open>n\<close> entries, and the position it
  denotes.
\<close>

definition valid_index :: "nat \<Rightarrow> int \<Rightarrow> bool" where
  "valid_index n i = (- int n \<le> i \<and> i < int n)"

definition col_of :: "nat \<Rightarrow> int \<Rightarrow> nat" where
  "col_of n i = nat (if i < 0 then int n + i else i)"

text \<open>
  The values along one axis of the grid: \<^verbatim>\<open>np.arange(lim[0], lim[1], mesher.delta)\<close> for
  \<^verbatim>\<open>lim = mesher.limits[k]\<close>.
\<close>

definition axis_values :: "mesher \<Rightarrow> nat \<Rightarrow> rat list" where
  "axis_values m k = arange_vals (fst (m_limits m ! k)) (snd (m_limits m ! k)) (delta m)"

text \<open>The points of the grid in the order of the flattened meshgrid, row \<^verbatim>\<open>j\<close> after row \<^verbatim>\<open>j - 1\<close>.\<close>

definition grid_points :: "rat list \<Rightarrow> rat list \<Rightarrow> array2" where
  "grid_points xs ys =
     vstack_T (concat (replicate (length ys) xs)) (concat (map (replicate (length xs)) ys))"

text \<open>
  The arguments on which \<^verbatim>\<open>_mesh\<close> raises nothing before it reshapes: both indices are valid
  for \<^verbatim>\<open>mesher.limits\<close>, the step is not zero, in the multi-dimension branch both indices are
  valid for the tiled array, and a pool has at least one process.
\<close>

definition mesh_defined :: "mesher \<Rightarrow> int option \<Rightarrow> int \<Rightarrow> int \<Rightarrow> rat list option \<Rightarrow> bool" where
  "mesh_defined m n_processes x_index y_index best_pos =
     (valid_index (length (m_limits m)) x_index \<and>
      valid_index (length (m_limits m)) y_index \<and>
      delta m \<noteq> 0 \<and>
      (if x_index \<noteq> 0 \<or> y_index \<noteq> 1 \<or> best_pos \<noteq> None
       then valid_index (tile_width best_pos) x_index \<and> valid_index (tile_width best_pos) y_index
       else True) \<and>
      (case n_processes of None \<Rightarrow> True | Some n \<Rightarrow> 0 < n))"

text \<open>A two-dimensional array of the given numbers of rows and columns.\<close>

definition has_shape :: "'a list list \<Rightarrow> nat \<Rightarrow> nat \<Rightarrow> bool" where
  "has_shape a rows cols = (length a = rows \<and> list_all (\<lambda>r. length r = cols) a)"


text \<open>
  The arguments on which \<^verbatim>\<open>plot_contour\<close> raises nothing: there is a first frame, both
  indices are valid for the labels and the limits of the designer, the mesh (when there is
  a mesher) is computed, the history is one rectangular block and both indices are valid
  for its last axis.
\<close>

definition contour_defined ::
  "designer \<Rightarrow> array2 list \<Rightarrow> mesher option \<Rightarrow> int option \<Rightarrow> int \<Rightarrow> int \<Rightarrow>
   rat list option \<Rightarrow> bool"
where
  "contour_defined d pos_history mesher n_processes x y best_pos =
     (pos_history \<noteq> [] \<and>
      valid_index (length (label d)) x \<and> valid_index (length (label d)) y \<and>
      valid_index (length (limits d)) x \<and> valid_index (length (limits d)) y \<and>
      (case mesher of
         None \<Rightarrow> True
       | Some m \<Rightarrow> (case mesh m n_processes x y best_pos of Inl e \<Rightarrow> False | Inr r \<Rightarrow> True)) \<and>
      rectangular pos_history \<and>
      valid_index (shape1 (hd pos_history)) x \<and> valid_index (shape1 (hd pos_history)) y)"

text \<open>The same for \<^verbatim>\<open>plot_surface\<close>, where the last column of the history is the fitness.\<close>

definition surface_defined ::
  "designer \<Rightarrow> array2 list \<Rightarrow> mesher option \<Rightarrow> int option \<Rightarrow> int \<Rightarrow> int \<Rightarrow>
   rat list option \<Rightarrow> bool"
where
  "surface_defined d pos_history mesher n_processes x y best_pos =
     (pos_history \<noteq> [] \<and>
      valid_index (length (label d)) x \<and> valid_index (length (label d)) y \<and>
      valid_index (length (label d)) (int (shape1 (hd pos_history)) - 1) \<and>
      valid_index (length (limits d)) x \<and> valid_index (length (limits d)) y \<and>
      valid_index (length (limits d)) (int (shape1 (hd pos_history)) - 1) \<and>
      (case mesher of
         None \<Rightarrow> True
       | Some m \<Rightarrow> (case mesh m n_processes x y best_pos of Inl e \<Rightarrow> False | Inr r \<Rightarrow> True)) \<and>
      rectangular pos_history \<and>
      valid_index (shape1 (hd pos_history)) x \<and> valid_index (shape1 (hd pos_history)) y)"

text \<open>One column of the position history, \<^verbatim>\<open>pos_history[:, :, k]\<close>.\<close>

definition history_column :: "array2 list \<Rightarrow> nat \<Rightarrow> cell list list" where
  "history_column pos_history k = map (map (\<lambda>row. row ! k)) pos_history"

section \<open>Example inputs\<close>

text \<open>
  An objective function that works row by row and tells the coordinates of a point apart:
  the row \<^verbatim>\<open>[a, b, c]\<close> has the value \<^verbatim>\<open>a + 10 b + 100 c\<close>.
\<close>

definition cell_value :: "cell \<Rightarrow> rat" where
  "cell_value c = (case c of NoneCell \<Rightarrow> 0 | Num q \<Rightarrow> q)"

definition weighted :: "cell list \<Rightarrow> rat" where
  "weighted r = foldr (\<lambda>c acc. cell_value c + 10 * acc) r 0"

definition example_mesher :: mesher where
  "example_mesher =
     \<lparr>func = map weighted, delta = 1, m_limits = [(0, 3), (0, 2), (5, 7)], levels = [], alpha = 0\<rparr>"

text \<open>
  The attribute defaults of \<^verbatim>\<open>Designer\<close> and \<^verbatim>\<open>Animator\<close> as the pyswarms distribution
  has them, used in the examples only, and a history of two iterations of two particles in
  three dimensions.
\<close>

definition example_Designer :: designer where
  "example_Designer =
     \<lparr>label = [''x-axis'', ''y-axis'', ''z-axis''], limits = [(- 1, 1), (- 1, 1), (- 1, 1)],
      legend = ''Cost'', colormap = ''viridis''\<rparr>"

definition example_Animator :: animator where
  "example_Animator = \<lparr>interval = 80, repeat = True, repeat_delay = None\<rparr>"

definition example_history :: "array2 list" where
  "example_history =
     [[[Num 1, Num 2, Num 3], [Num 4, Num 5, Num 6]],
      [[Num 7, Num 8, Num 9], [Num 10, Num 11, Num 12]]]"

text \<open>A history that differs from the example in its third column only.\<close>

definition other_history :: "array2 list" where
  "other_history =
     [[[Num 1, Num 2, Num 0], [Num 4, Num 5, Num 0]],
      [[Num 7, Num 8, Num 0], [Num 10, Num 11, Num 0]]]"

text \<open>A designer whose labels and limits tell the three dimensions apart.\<close>

definition example_labels :: designer where
  "example_labels =
     \<lparr>label = [''a'', ''b'', ''fitness''], limits = [(0, 1), (2, 3), (4, 5)],
      legend = ''Cost'', colormap = ''viridis''\<rparr>"

text \<open>
  One iteration of one particle in 257 dimensions, and a designer with 257 labels and 257
  limits.
\<close>

definition wide_history :: "array2 list" where
  "wide_history = [[replicate 257 (Num 0)]]"

definition wide_designer :: designer where
  "wide_designer =
     \<lparr>label = replicate 257 ''x'', limits = replicate 257 (- 1, 1), legend = [], colormap = []\<rparr>"

section \<open>Basic facts\<close>

lemma and_then_simps [simp]:
  "and_then (Inl e) f = Inl e"
  "and_then (Inr v) f = f v"
  by (simp_all add: and_then_def)

lemma and_then_Inr_iff: "and_then r f = Inr v \<longleftrightarrow> (\<exists>u. r = Inr u \<and> f u = Inr v)"
  by (cases r) simp_all

lemma norm_index_eq:
  "norm_index n i = (if valid_index n i then Inr (col_of n i) else Inl IndexError)"
  by (auto simp: norm_index_def valid_index_def col_of_def Let_def)

lemma col_of_nonneg [simp]: "0 \<le> i \<Longrightarrow> col_of n i = nat i"
  by (simp add: col_of_def)

lemma valid_index_nonneg: "0 \<le> i \<Longrightarrow> valid_index n i \<longleftrightarrow> nat i < n"
  by (auto simp: valid_index_def)

subsection \<open>Sections of an array\<close>

lemma concat_split_sizes: "concat (split_sizes ks xs) = take (sum_list ks) xs"
proof (induction ks arbitrary: xs)
  case Nil
  show ?case by simp
next
  case (Cons k ks)
  show ?case by (simp add: Cons.IH take_add)
qed

lemma sum_section_sizes:
  assumes "0 < n"
  shows "sum_list (section_sizes len n) = len"
proof -
  have "len mod n \<le> n"
    using assms by (simp add: less_imp_le)
  then have "sum_list (section_sizes len n) = len mod n + n * (len div n)"
    by (simp add: section_sizes_def sum_list_replicate algebra_simps)
  then show ?thesis by simp
qed

lemma concat_array_split: "0 < n \<Longrightarrow> concat (array_split a n) = a"
  by (simp add: array_split_def concat_split_sizes sum_section_sizes)

lemma length_array_split_sum:
  assumes "\<And>pts. length (g pts) = length pts" and "0 < n"
  shows "length (concat (map g (array_split a n))) = length a"
proof -
  have "length (concat (map g (array_split a n))) = length (concat (array_split a n))"
    by (simp add: length_concat comp_def assms(1))
  then show ?thesis
    by (simp add: concat_array_split [OF assms(2)])
qed

subsection \<open>The flattened grid\<close>

lemma length_concat_replicate: "length (concat (replicate n xs)) = n * length xs"
  by (induction n) simp_all

lemma length_concat_map_replicate: "length (concat (map (replicate c) ys)) = length ys * c"
  by (induction ys) simp_all





lemma length_vstack_T: "length (vstack_T a b) = min (length a) (length b)"
  by (simp add: vstack_T_def)

lemma length_grid_points: "length (grid_points xs ys) = length ys * length xs"
  by (simp add: grid_points_def length_vstack_T length_concat_replicate length_concat_map_replicate)


subsection \<open>Reshaping\<close>

lemma reshape_Inr_iff:
  "reshape z r c = Inr zz \<longleftrightarrow>
     length z = r * c \<and> zz = map (\<lambda>j. take c (drop (j * c) z)) [0 ..< r]"
  by (auto simp: reshape_def)


lemma has_shape_reshape:
  assumes "reshape z r c = Inr zz"
  shows "has_shape zz r c"
proof -
  have "length (zz ! j) = c" if "j < r" for j
  proof -
    from assms have len: "length z = r * c"
      and zz: "zz = map (\<lambda>j. take c (drop (j * c) z)) [0 ..< r]"
      by (simp_all add: reshape_Inr_iff)
    have "j * c + c \<le> r * c"
      using that by (metis Suc_leI add.commute mult_Suc mult_le_mono1)
    then show ?thesis using that by (simp add: zz len)
  qed
  moreover have "length zz = r"
    using assms by (auto simp: reshape_Inr_iff)
  ultimately show ?thesis
    by (auto simp: has_shape_def list_all_length)
qed

subsection \<open>The steps of \<^verbatim>\<open>_mesh\<close>\<close>

lemma two_columns_set:
  "map (\<lambda>(r, v). r[ky := v])
     (zip (map (\<lambda>(r, v). r[kx := v]) (zip (replicate (length pts) row) (column 0 pts)))
          (column 1 pts)) =
   map (\<lambda>r. (row[kx := r ! 0])[ky := r ! 1]) pts"
  by (rule nth_equalityI) (simp_all add: column_def)

lemma prepare_multi:
  assumes "x \<noteq> 0 \<or> y \<noteq> 1 \<or> bp \<noteq> None"
  shows "prepare x y bp pts =
     and_then (norm_index (tile_width bp) x) (\<lambda>kx.
     and_then (norm_index (tile_width bp) y) (\<lambda>ky.
       Inr (map (\<lambda>r. ((tile_row bp)[kx := r ! 0])[ky := r ! 1]) pts)))"
proof -
  have "prepare x y bp pts =
     and_then (norm_index (tile_width bp) x) (\<lambda>kx.
     and_then (norm_index (tile_width bp) y) (\<lambda>ky.
       Inr (map (\<lambda>(r, v). r[ky := v])
         (zip (map (\<lambda>(r, v). r[kx := v])
                 (zip (replicate (length pts) (tile_row bp)) (column 0 pts)))
              (column 1 pts)))))"
    using assms
    by (cases "norm_index (tile_width bp) x")
       (simp_all add: prepare_def set_column_def tile_def)
  then show ?thesis
    by (simp only: two_columns_set)
qed

lemma prepare_eq:
  "prepare x y bp pts =
     (if x \<noteq> 0 \<or> y \<noteq> 1 \<or> bp \<noteq> None then
        if valid_index (tile_width bp) x \<and> valid_index (tile_width bp) y
        then Inr (map (\<lambda>r. ((tile_row bp)[col_of (tile_width bp) x := r ! 0])
                               [col_of (tile_width bp) y := r ! 1]) pts)
        else Inl IndexError
      else Inr pts)"
proof (cases "x \<noteq> 0 \<or> y \<noteq> 1 \<or> bp \<noteq> None")
  case True
  then show ?thesis
    by (simp add: prepare_multi [OF True] norm_index_eq)
next
  case False
  then show ?thesis by (simp add: prepare_def)
qed

lemma length_prepare: "prepare x y bp pts = Inr pts' \<Longrightarrow> length pts' = length pts"
  by (auto simp: prepare_eq split: if_splits)



lemma evaluate_eq:
  "evaluate g np pts =
     (case np of
        None \<Rightarrow> Inr (g pts)
      | Some n \<Rightarrow> if 0 < n then Inr (concat (map g (array_split pts (nat n)))) else Inl ValueError)"
  by (auto simp: evaluate_def split: option.splits)

lemma length_evaluate:
  assumes "\<And>pts. length (g pts) = length pts" and "evaluate g np pts = Inr z"
  shows "length z = length pts"
  using assms(2) length_array_split_sum [of g _ pts, OF assms(1)] assms(1)
  by (auto simp: evaluate_eq split: option.splits if_splits)

lemma mesh_eq:
  "mesh m np x y bp =
     (if valid_index (length (m_limits m)) x \<and> valid_index (length (m_limits m)) y then
        if delta m = 0 then Inl ZeroDivisionError
        else
          and_then (prepare x y bp
            (grid_points (axis_values m (col_of (length (m_limits m)) x))
                         (axis_values m (col_of (length (m_limits m)) y)))) (\<lambda>pts.
          and_then (evaluate (func m) np pts) (\<lambda>z.
          and_then (reshape z (length (axis_values m (col_of (length (m_limits m)) y)))
                              (length (axis_values m (col_of (length (m_limits m)) x)))) (\<lambda>zz.
            Inr (replicate (length (axis_values m (col_of (length (m_limits m)) y)))
                   (axis_values m (col_of (length (m_limits m)) x)),
                 map (replicate (length (axis_values m (col_of (length (m_limits m)) x))))
                   (axis_values m (col_of (length (m_limits m)) y)), zz))))
      else Inl IndexError)"
  by (simp add: mesh_def py_index_def norm_index_eq arange_def meshgrid_def grid_points_def
      axis_values_def)

lemma mesh_Inr_parts:
  assumes "mesh m np x y bp = Inr (xx, yy, zz)"
  defines "xs \<equiv> axis_values m (col_of (length (m_limits m)) x)"
    and "ys \<equiv> axis_values m (col_of (length (m_limits m)) y)"
  shows "\<exists>pts z. prepare x y bp (grid_points xs ys) = Inr pts \<and>
           evaluate (func m) np pts = Inr z \<and>
           reshape z (length ys) (length xs) = Inr zz \<and>
           xx = replicate (length ys) xs \<and> yy = map (replicate (length xs)) ys"
  using assms(1) unfolding xs_def ys_def
  by (auto simp: mesh_eq and_then_Inr_iff split: if_splits)

lemma mesh_returns_iff:
  assumes "\<And>pts. length (func m pts) = length pts"
  shows "(\<exists>r. mesh m np x y bp = Inr r) \<longleftrightarrow> mesh_defined m np x y bp"
proof -
  let ?g = "grid_points (axis_values m (col_of (length (m_limits m)) x))
                        (axis_values m (col_of (length (m_limits m)) y))"
  have re: "reshape z (length (axis_values m (col_of (length (m_limits m)) y)))
                      (length (axis_values m (col_of (length (m_limits m)) x))) =
            Inr (map (\<lambda>j. take (length (axis_values m (col_of (length (m_limits m)) x)))
                        (drop (j * length (axis_values m (col_of (length (m_limits m)) x))) z))
                  [0 ..< length (axis_values m (col_of (length (m_limits m)) y))])"
    if "prepare x y bp ?g = Inr pts" "evaluate (func m) np pts = Inr z" for pts z
    using length_evaluate [OF assms that(2)] length_prepare [OF that(1)]
    by (simp add: reshape_def length_grid_points)
  show ?thesis
  proof (cases "prepare x y bp ?g")
    case (Inl e)
    then show ?thesis
      by (auto simp: mesh_eq mesh_defined_def prepare_eq split: if_splits)
  next
    case (Inr pts)
    note p = this
    show ?thesis
    proof (cases "evaluate (func m) np pts")
      case (Inl e)
      with p show ?thesis
        by (auto simp: mesh_eq mesh_defined_def prepare_eq evaluate_eq
            split: if_splits option.splits)
    next
      case (Inr z)
      with p re [OF p Inr] show ?thesis
        by (auto simp: mesh_eq mesh_defined_def prepare_eq evaluate_eq
            split: if_splits option.splits)
    qed
  qed
qed


subsection \<open>Evaluated examples\<close>


subsection \<open>Warnings and exceptions\<close>

lemma next_do_Inl [simp]: "next_do (l, Inl e) f = (l, Inl e)"
  by (simp add: next_do_def)

lemma next_do_Inr [simp]: "next_do (l, Inr v) f = (l @ fst (f v), snd (f v))"
  by (simp add: next_do_def)

lemma next_do_lift_Inr: "next_do (lift (Inr v)) f = f v"
  by (simp add: lift_def)

lemma snd_next_do_Inr_iff:
  "snd (next_do r f) = Inr v \<longleftrightarrow> (\<exists>u. snd r = Inr u \<and> snd (f u) = Inr v)"
  by (cases r; cases "snd r") auto

lemma snd_next_do_of: "snd r = Inr v \<Longrightarrow> snd (next_do r f) = snd (f v)"
  by (cases r) simp

lemma fst_next_do:
  "fst (next_do r f) = fst r @ (case snd r of Inl e \<Rightarrow> [] | Inr v \<Rightarrow> fst (f v))"
  by (cases r; cases "snd r") auto

lemma snd_lift [simp]: "snd (lift r) = r" and fst_lift [simp]: "fst (lift r) = []"
  by (simp_all add: lift_def)

lemma snd_ok [simp]: "snd (ok v) = Inr v" and fst_ok [simp]: "fst (ok v) = []"
  by (simp_all add: ok_def)

lemma snd_warn [simp]: "snd (warn s) = Inr ()" and fst_warn [simp]: "fst (warn s) = [s]"
  by (simp_all add: warn_def)

lemma snd_warn_if [simp]: "snd (warn_if b s) = Inr ()"
  and fst_warn_if [simp]: "fst (warn_if b s) = (if b then [s] else [])"
  by (simp_all add: warn_if_def)

lemma py_index_eq:
  "py_index xs i = (if valid_index (length xs) i then Inr (xs ! col_of (length xs) i) else Inl IndexError)"
  by (simp add: py_index_def norm_index_eq)

lemma py_index_first: "py_index ph 0 = (case ph of [] \<Rightarrow> Inl IndexError | f # _ \<Rightarrow> Inr f)"
  by (cases ph) (simp_all add: py_index_eq valid_index_def)

subsection \<open>The columns of the history\<close>

lemma norm_indices_two:
  "norm_indices n [x, y] =
     (if valid_index n x \<and> valid_index n y then Inr [col_of n x, col_of n y] else Inl IndexError)"
  by (simp add: norm_index_eq)

lemma norm_indices_three:
  "norm_indices n [x, y, z] =
     (if valid_index n x \<and> valid_index n y \<and> valid_index n z
      then Inr [col_of n x, col_of n y, col_of n z] else Inl IndexError)"
  by (simp add: norm_index_eq)

lemma take_columns_two:
  "take_columns ph [x, y] =
     (if \<not> rectangular ph then Inl ValueError
      else if valid_index (shape1 (hd ph)) x \<and> valid_index (shape1 (hd ph)) y
      then Inr (map (map (\<lambda>row. [row ! col_of (shape1 (hd ph)) x, row ! col_of (shape1 (hd ph)) y])) ph)
      else Inl IndexError)"
  by (simp add: take_columns_def norm_indices_two del: norm_indices.simps)

lemma take_columns_three:
  "take_columns ph [x, y, z] =
     (if \<not> rectangular ph then Inl ValueError
      else if valid_index (shape1 (hd ph)) x \<and> valid_index (shape1 (hd ph)) y \<and>
              valid_index (shape1 (hd ph)) z
      then Inr (map (map (\<lambda>row. [row ! col_of (shape1 (hd ph)) x, row ! col_of (shape1 (hd ph)) y,
                                  row ! col_of (shape1 (hd ph)) z])) ph)
      else Inl IndexError)"
  by (simp add: take_columns_def norm_indices_three del: norm_indices.simps)

lemma rectangular_nth:
  assumes "rectangular ph" "i < length ph"
  shows "length (ph ! i) = length (hd ph)"
    and "\<And>p. p < length (ph ! i) \<Longrightarrow> length (ph ! i ! p) = shape1 (hd ph)"
  using assms
  by (cases ph; simp add: rectangular_def list_all_length)+

lemma frame_nonempty:
  assumes "rectangular ph" "i < length ph" "0 < shape1 (hd ph)"
  shows "ph ! i \<noteq> []"
proof -
  from assms(3) have "hd ph \<noteq> []"
    by (auto simp: shape1_def)
  with rectangular_nth(1) [OF assms(1,2)] show ?thesis
    by auto
qed

lemma shape1_map: "frame \<noteq> [] \<Longrightarrow> shape1 (map g frame) = length (g (hd frame))"
  by (cases frame) (simp_all add: shape1_def)

lemma valid_index_pos: "valid_index n i \<Longrightarrow> 0 < n"
  by (auto simp: valid_index_def)

lemma animate_two_columns:
  assumes "rectangular ph" "i < length ph" "0 < shape1 (hd ph)"
  shows "animate (int i) (map (map (\<lambda>row. [row ! a, row ! b])) ph) plot =
           Inr (plot\<lparr>offsets := map (\<lambda>row. [row ! a, row ! b]) (ph ! i)\<rparr>)"
  using assms(2) frame_nonempty [OF assms]
  by (simp add: animate_def py_index_eq valid_index_def shape1_map)

lemma animate_three_columns:
  assumes "rectangular ph" "i < length ph" "0 < shape1 (hd ph)"
  shows "animate (int i) (map (map (\<lambda>row. [row ! a, row ! b, row ! c])) ph) plot =
           Inr (plot\<lparr>offsets3d := transpose (map (\<lambda>row. [row ! a, row ! b, row ! c]) (ph ! i))\<rparr>)"
  using assms(2) frame_nonempty [OF assms]
  by (simp add: animate_def py_index_eq valid_index_def shape1_map)

lemma rectangular_by_lengths:
  "rectangular ph =
     (case map (map length) ph of
        [] \<Rightarrow> True
      | s # _ \<Rightarrow>
          list_all (\<lambda>t. length t = length s \<and>
                      list_all (\<lambda>l. l = (case s of [] \<Rightarrow> 0 | l0 # _ \<Rightarrow> l0)) t)
            (map (map length) ph))"
proof (cases ph)
  case Nil
  then show ?thesis by (simp add: rectangular_def)
next
  case (Cons first rest)
  have "shape1 first = (case map length first of [] \<Rightarrow> 0 | l0 # _ \<Rightarrow> l0)"
    by (cases first) (simp_all add: shape1_def)
  then show ?thesis
    by (simp add: Cons rectangular_def list.pred_map comp_def)
qed

lemma same_shape_facts:
  assumes "map (map length) ph1 = map (map length) ph2"
  shows "length ph1 = length ph2"
    and "rectangular ph1 = rectangular ph2"
    and "shape1 (hd ph1) = shape1 (hd ph2)"
    and "ph1 = [] \<longleftrightarrow> ph2 = []"
proof -
  show l: "length ph1 = length ph2"
    using assms by (rule map_eq_imp_length_eq)
  show "rectangular ph1 = rectangular ph2"
    by (simp add: rectangular_by_lengths assms cong: list.case_cong)
  show e: "ph1 = [] \<longleftrightarrow> ph2 = []"
    using l by auto
  show "shape1 (hd ph1) = shape1 (hd ph2)"
  proof (cases ph1)
    case Nil
    with e show ?thesis by simp
  next
    case (Cons f1 r1)
    with e obtain f2 r2 where c2: "ph2 = f2 # r2"
      by (cases ph2) auto
    with Cons assms have "map length f1 = map length f2"
      by simp
    then have "shape1 f1 = shape1 f2"
      by (cases f1; cases f2) (simp_all add: shape1_def)
    with Cons c2 show ?thesis by simp
  qed
qed

lemma two_columns_by_columns:
  "map (map (\<lambda>row. [row ! a, row ! b])) ph =
     map (\<lambda>(u, v). map (\<lambda>(p, q). [p, q]) (zip u v))
       (zip (history_column ph a) (history_column ph b))"
  by (simp add: history_column_def zip_map_map list_eq_iff_nth_eq)

lemma take_columns_agree:
  assumes "map (map length) ph1 = map (map length) ph2"
    and "valid_index (shape1 (hd ph1)) x \<Longrightarrow>
           history_column ph1 (col_of (shape1 (hd ph1)) x) =
           history_column ph2 (col_of (shape1 (hd ph1)) x)"
    and "valid_index (shape1 (hd ph1)) y \<Longrightarrow>
           history_column ph1 (col_of (shape1 (hd ph1)) y) =
           history_column ph2 (col_of (shape1 (hd ph1)) y)"
  shows "take_columns ph1 [x, y] = take_columns ph2 [x, y]"
  using assms(2,3) same_shape_facts(2,3) [OF assms(1)]
  by (simp add: take_columns_two two_columns_by_columns)

subsection \<open>The steps of \<^verbatim>\<open>plot_contour\<close>\<close>

lemma snd_checks_contour [simp]: "snd (checks_contour d n x y) = Inr ()"
  by (simp add: checks_contour_def snd_next_do_Inr_iff)

lemma checks_contour_log:
  "fst (checks_contour d n x y) =
     (if n < 2 then [''Given pos_history has too less dimensions to be plotted in 2D.''] else []) @
     (if \<not> py_is (int (length (limits d))) n
      then [''Limits in designer has incorrect dimensions.''] else []) @
     (if \<not> py_is (int (length (label d))) n
      then [''Labels in designer has incorrect dimensions.''] else []) @
     (if x < 0 \<or> n \<le> x then [''Index of dimension to plot on x-axis out of bound.''] else []) @
     (if y < 0 \<or> n \<le> y then [''Index of dimension to plot on y-axis out of bound.''] else []) @
     (if py_is x y
      then [''Index for plotting x- and y-axis is the same, that is probably not what you want.'']
      else [])"
  by (simp add: checks_contour_def fst_next_do)

lemma x_warning_iff:
  "''Index of dimension to plot on x-axis out of bound.'' \<in> set (fst (checks_contour d n x y))
     \<longleftrightarrow> x < 0 \<or> n \<le> x"
  by (simp add: checks_contour_log)

lemma y_warning_iff:
  "''Index of dimension to plot on y-axis out of bound.'' \<in> set (fst (checks_contour d n x y))
     \<longleftrightarrow> y < 0 \<or> n \<le> y"
  by (simp add: checks_contour_log)

lemma limits_warning_iff:
  "''Limits in designer has incorrect dimensions.'' \<in> set (fst (checks_contour d n x y))
     \<longleftrightarrow> \<not> py_is (int (length (limits d))) n"
  by (simp add: checks_contour_log)

lemma labels_warning_iff:
  "''Labels in designer has incorrect dimensions.'' \<in> set (fst (checks_contour d n x y))
     \<longleftrightarrow> \<not> py_is (int (length (label d))) n"
  by (simp add: checks_contour_log)

lemma add_artist_fields [simp]:
  "xlabel (add_artist a ax) = xlabel ax"
  "ylabel (add_artist a ax) = ylabel ax"
  "zlabel (add_artist a ax) = zlabel ax"
  "xlim (add_artist a ax) = xlim ax"
  "ylim (add_artist a ax) = ylim ax"
  "zlim (add_artist a ax) = zlim ax"
  "ax_title (add_artist a ax) = ax_title ax"
  "has_zlim (add_artist a ax) = has_zlim ax"
  by (simp_all add: add_artist_def)

lemma contour_map_Inr_iff:
  "snd (contour_map ax mesher n_dim np x y bp) = Inr ax' \<longleftrightarrow>
     (case mesher of
        None \<Rightarrow> ax' = ax
      | Some m \<Rightarrow> (\<exists>xx yy zz. mesh m np x y bp = Inr (xx, yy, zz) \<and>
                     ax' = add_artist (Contour xx yy zz (levels m)) ax))"
  by (auto simp: contour_map_def snd_next_do_Inr_iff split: option.splits)

lemma contour_map_keeps:
  assumes "snd (contour_map ax mesher n_dim np x y bp) = Inr ax'"
  shows "ax' = ax \<or> (\<exists>a. ax' = add_artist a ax)"
  using assms by (auto simp: contour_map_Inr_iff split: option.splits)

lemma contour_map_returns_iff:
  "(\<exists>ax'. snd (contour_map ax mesher n_dim np x y bp) = Inr ax') \<longleftrightarrow>
     (case mesher of
        None \<Rightarrow> True
      | Some m \<Rightarrow> (case mesh m np x y bp of Inl e \<Rightarrow> False | Inr r \<Rightarrow> True))"
  by (auto simp: contour_map_Inr_iff split: option.splits sum.splits)

lemma mark_contour_Inr_iff:
  "snd (mark_contour ax mark n_dim x y) = Inr ax' \<Longrightarrow>
     ax' = ax \<or> (\<exists>a. ax' = add_artist a ax)"
  by (auto simp: mark_contour_def snd_next_do_Inr_iff split: option.splits if_splits)

lemma mark_contour_returns:
  assumes "valid_index (nat n_dim) x" "valid_index (nat n_dim) y"
  shows "\<exists>ax'. snd (mark_contour ax mark n_dim x y) = Inr ax'"
proof (cases mark)
  case None
  then show ?thesis by (simp add: mark_contour_def)
next
  case (Some mk)
  show ?thesis
  proof (cases "length mk < 2")
    case True
    with Some show ?thesis by (simp add: mark_contour_def snd_next_do_Inr_iff)
  next
    case False
    note l = this
    show ?thesis
    proof (cases "py_is (int (length mk)) 2")
      case True
      then have "length mk = 2" by (simp add: py_is_def)
      with Some True show ?thesis
        by (simp add: mark_contour_def snd_next_do_Inr_iff py_index_eq valid_index_def)
    next
      case False
      note t = this
      show ?thesis
      proof (cases "py_is (int (length mk)) n_dim")
        case True
        then have "nat n_dim = length mk" by (auto simp: py_is_def)
        with assms Some l t True show ?thesis
          by (simp add: mark_contour_def snd_next_do_Inr_iff py_index_eq)
      next
        case False
        with Some l t show ?thesis
          by (simp add: mark_contour_def snd_next_do_Inr_iff)
      qed
    qed
  qed
qed

lemma plot_contour_steps:
  assumes "snd (plot_contour D A ph canvas title mark designer mesher animator np x y bp) = Inr an"
  shows "\<exists>first lx ly limx limy ax1 ax2 data.
           py_index ph 0 = Inr first \<and>
           py_index (label (contour_designer D designer)) x = Inr lx \<and>
           py_index (label (contour_designer D designer)) y = Inr ly \<and>
           py_index (limits (contour_designer D designer)) x = Inr limx \<and>
           py_index (limits (contour_designer D designer)) y = Inr limy \<and>
           snd (contour_map
                  ((case canvas of None \<Rightarrow> subplots | Some a \<Rightarrow> a)
                     \<lparr>ax_title := title, xlabel := lx, ylabel := ly,
                      xlim := Some limx, ylim := Some limy\<rparr>)
                  mesher (int (shape1 first)) np x y bp) = Inr ax1 \<and>
           snd (mark_contour ax1 mark (int (shape1 first)) x y) = Inr ax2 \<and>
           take_columns ph [x, y] = Inr data \<and>
           an = \<lparr>an_axes = add_artist Scatter ax2, frames = [0 ..< length ph],
                  fargs_data = data, fargs_plot = \<lparr>offsets = [], offsets3d = []\<rparr>,
                  an_interval = interval (case animator of None \<Rightarrow> A | Some a \<Rightarrow> a),
                  an_repeat = repeat (case animator of None \<Rightarrow> A | Some a \<Rightarrow> a),
                  an_repeat_delay = repeat_delay (case animator of None \<Rightarrow> A | Some a \<Rightarrow> a)\<rparr>"
  using assms
  by (simp add: plot_contour_def Let_def snd_next_do_Inr_iff) blast

lemma plot_contour_Inr:
  assumes "snd (plot_contour D A ph canvas title mark designer mesher animator np x y bp) = Inr an"
  shows "contour_defined (contour_designer D designer) ph mesher np x y bp"
    and "frames an = [0 ..< length ph]"
    and "fargs_data an =
           map (map (\<lambda>row. [row ! col_of (shape1 (hd ph)) x, row ! col_of (shape1 (hd ph)) y])) ph"
    and "xlabel (an_axes an) =
           label (contour_designer D designer) ! col_of (length (label (contour_designer D designer))) x"
    and "ylabel (an_axes an) =
           label (contour_designer D designer) ! col_of (length (label (contour_designer D designer))) y"
    and "xlim (an_axes an) =
           Some (limits (contour_designer D designer) !
                   col_of (length (limits (contour_designer D designer))) x)"
    and "ylim (an_axes an) =
           Some (limits (contour_designer D designer) !
                   col_of (length (limits (contour_designer D designer))) y)"
proof -
  let ?d = "contour_designer D designer"
  from plot_contour_steps [OF assms] obtain first lx ly limx limy ax1 ax2 data where
    f: "py_index ph 0 = Inr first"
    and lx: "py_index (label ?d) x = Inr lx" and ly: "py_index (label ?d) y = Inr ly"
    and limx: "py_index (limits ?d) x = Inr limx" and limy: "py_index (limits ?d) y = Inr limy"
    and c: "snd (contour_map
                  ((case canvas of None \<Rightarrow> subplots | Some a \<Rightarrow> a)
                     \<lparr>ax_title := title, xlabel := lx, ylabel := ly,
                      xlim := Some limx, ylim := Some limy\<rparr>)
                  mesher (int (shape1 first)) np x y bp) = Inr ax1"
    and m: "snd (mark_contour ax1 mark (int (shape1 first)) x y) = Inr ax2"
    and t: "take_columns ph [x, y] = Inr data"
    and an: "an = \<lparr>an_axes = add_artist Scatter ax2, frames = [0 ..< length ph],
                  fargs_data = data, fargs_plot = \<lparr>offsets = [], offsets3d = []\<rparr>,
                  an_interval = interval (case animator of None \<Rightarrow> A | Some a \<Rightarrow> a),
                  an_repeat = repeat (case animator of None \<Rightarrow> A | Some a \<Rightarrow> a),
                  an_repeat_delay = repeat_delay (case animator of None \<Rightarrow> A | Some a \<Rightarrow> a)\<rparr>"
    by blast
  from f have ne: "ph \<noteq> []"
    by (auto simp: py_index_first)
  from c have mesh_ok: "case mesher of None \<Rightarrow> True
      | Some m \<Rightarrow> (case mesh m np x y bp of Inl e \<Rightarrow> False | Inr r \<Rightarrow> True)"
    using contour_map_returns_iff by blast
  from t have r: "rectangular ph" and vx: "valid_index (shape1 (hd ph)) x"
    and vy: "valid_index (shape1 (hd ph)) y"
    and data: "data = map (map (\<lambda>row. [row ! col_of (shape1 (hd ph)) x,
                                           row ! col_of (shape1 (hd ph)) y])) ph"
    by (auto simp: take_columns_two split: if_splits)
  from lx ly limx limy show "contour_defined ?d ph mesher np x y bp"
    using ne mesh_ok r vx vy
    by (auto simp: contour_defined_def py_index_eq split: if_splits)
  show "frames an = [0 ..< length ph]"
    by (simp add: an)
  show "fargs_data an =
      map (map (\<lambda>row. [row ! col_of (shape1 (hd ph)) x, row ! col_of (shape1 (hd ph)) y])) ph"
    by (simp add: an data)
  have keep: "xlabel ax2 = lx \<and> ylabel ax2 = ly \<and> xlim ax2 = Some limx \<and> ylim ax2 = Some limy"
    using contour_map_keeps [OF c] mark_contour_Inr_iff [OF m] by auto
  from lx keep show "xlabel (an_axes an) = label ?d ! col_of (length (label ?d)) x"
    by (auto simp: an py_index_eq split: if_splits)
  from ly keep show "ylabel (an_axes an) = label ?d ! col_of (length (label ?d)) y"
    by (auto simp: an py_index_eq split: if_splits)
  from limx keep show "xlim (an_axes an) = Some (limits ?d ! col_of (length (limits ?d)) x)"
    by (auto simp: an py_index_eq split: if_splits)
  from limy keep show "ylim (an_axes an) = Some (limits ?d ! col_of (length (limits ?d)) y)"
    by (auto simp: an py_index_eq split: if_splits)
qed

lemma plot_contour_returns:
  assumes "contour_defined (contour_designer D designer) ph mesher np x y bp"
  shows "\<exists>an. snd (plot_contour D A ph canvas title mark designer mesher animator np x y bp) = Inr an"
proof -
  let ?d = "contour_designer D designer"
  from assms obtain first rest where ph: "ph = first # rest"
    by (cases ph) (auto simp: contour_defined_def)
  let ?ax = "(case canvas of None \<Rightarrow> subplots | Some a \<Rightarrow> a)
       \<lparr>ax_title := title, xlabel := label ?d ! col_of (length (label ?d)) x,
        ylabel := label ?d ! col_of (length (label ?d)) y,
        xlim := Some (limits ?d ! col_of (length (limits ?d)) x),
        ylim := Some (limits ?d ! col_of (length (limits ?d)) y)\<rparr>"
  from assms obtain ax1 where
    c: "snd (contour_map ?ax mesher (int (shape1 first)) np x y bp) = Inr ax1"
    using contour_map_returns_iff [of ?ax mesher "int (shape1 first)" np x y bp]
    by (auto simp: contour_defined_def)
  from assms ph have "valid_index (nat (int (shape1 first))) x"
      "valid_index (nat (int (shape1 first))) y"
    by (simp_all add: contour_defined_def)
  from mark_contour_returns [OF this] obtain ax2 where
    m: "snd (mark_contour ax1 mark (int (shape1 first)) x y) = Inr ax2"
    by blast
  have f: "py_index ph 0 = Inr first"
    by (simp add: ph py_index_first)
  from assms have l: "py_index (label ?d) x = Inr (label ?d ! col_of (length (label ?d)) x)"
      "py_index (label ?d) y = Inr (label ?d ! col_of (length (label ?d)) y)"
      "py_index (limits ?d) x = Inr (limits ?d ! col_of (length (limits ?d)) x)"
      "py_index (limits ?d) y = Inr (limits ?d ! col_of (length (limits ?d)) y)"
    by (simp_all add: contour_defined_def py_index_eq)
  from assms have "\<exists>data. take_columns ph [x, y] = Inr data"
    by (simp add: contour_defined_def take_columns_two)
  with f l c m show ?thesis
    by (simp add: plot_contour_def Let_def snd_next_do_Inr_iff)
qed

lemma plot_contour_returns_iff:
  "(\<exists>an. snd (plot_contour D A ph canvas title mark designer mesher animator np x y bp) = Inr an)
     \<longleftrightarrow> contour_defined (contour_designer D designer) ph mesher np x y bp"
proof
  assume "\<exists>an. snd (plot_contour D A ph canvas title mark designer mesher animator np x y bp) = Inr an"
  then obtain an where
    "snd (plot_contour D A ph canvas title mark designer mesher animator np x y bp) = Inr an" ..
  then show "contour_defined (contour_designer D designer) ph mesher np x y bp"
    by (rule plot_contour_Inr(1))
next
  assume "contour_defined (contour_designer D designer) ph mesher np x y bp"
  then show "\<exists>an. snd (plot_contour D A ph canvas title mark designer mesher animator np x y bp) = Inr an"
    by (rule plot_contour_returns)
qed

lemma plot_contour_log:
  assumes "ph \<noteq> []"
  shows "\<exists>later. fst (plot_contour D A ph canvas title mark designer mesher animator np x y bp) =
           fst (checks_contour (contour_designer D designer) (int (shape1 (hd ph))) x y) @ later"
proof -
  from assms obtain first rest where ph: "ph = first # rest"
    by (cases ph) auto
  have f: "py_index ph 0 = Inr first"
    by (simp add: ph py_index_first)
  show ?thesis
    unfolding plot_contour_def Let_def
    by (subst fst_next_do, simp add: f, subst fst_next_do, simp add: ph)
qed

subsection \<open>The steps of \<^verbatim>\<open>plot_surface\<close>\<close>

lemma snd_checks_surface [simp]: "snd (checks_surface d n x y) = Inr ()"
  by (simp add: checks_surface_def snd_next_do_Inr_iff)

lemma surface_map_Inr_iff:
  "snd (surface_map ax d mesher n_dim np x y bp) = Inr ax' \<longleftrightarrow>
     (case mesher of
        None \<Rightarrow> ax' = ax
      | Some m \<Rightarrow> (\<exists>xx yy zz. mesh m np x y bp = Inr (xx, yy, zz) \<and>
                     ax' = add_artist (Surface xx yy zz (colormap d) (alpha m)) ax))"
  by (auto simp: surface_map_def snd_next_do_Inr_iff split: option.splits)

lemma surface_map_keeps:
  assumes "snd (surface_map ax d mesher n_dim np x y bp) = Inr ax'"
  shows "ax' = ax \<or> (\<exists>a. ax' = add_artist a ax)"
  using assms by (auto simp: surface_map_Inr_iff split: option.splits)

lemma surface_map_returns_iff:
  "(\<exists>ax'. snd (surface_map ax d mesher n_dim np x y bp) = Inr ax') \<longleftrightarrow>
     (case mesher of
        None \<Rightarrow> True
      | Some m \<Rightarrow> (case mesh m np x y bp of Inl e \<Rightarrow> False | Inr r \<Rightarrow> True))"
  by (auto simp: surface_map_Inr_iff split: option.splits sum.splits)

lemma mark_surface_keeps:
  "snd (mark_surface ax mark n_dim x y) = Inr ax' \<Longrightarrow>
     ax' = ax \<or> (\<exists>a. ax' = add_artist a ax)"
  by (auto simp: mark_surface_def snd_next_do_Inr_iff split: option.splits if_splits)

lemma mark_surface_returns:
  assumes "valid_index (nat (n_dim + 1)) x" "valid_index (nat (n_dim + 1)) y"
  shows "\<exists>ax'. snd (mark_surface ax mark n_dim x y) = Inr ax'"
proof (cases mark)
  case None
  then show ?thesis by (simp add: mark_surface_def)
next
  case (Some mk)
  show ?thesis
  proof (cases "length mk < 3")
    case True
    with Some show ?thesis by (simp add: mark_surface_def snd_next_do_Inr_iff)
  next
    case False
    note l = this
    show ?thesis
    proof (cases "length mk = 3")
      case True
      with Some show ?thesis
        by (simp add: mark_surface_def snd_next_do_Inr_iff py_index_eq valid_index_def)
    next
      case False
      note t = this
      show ?thesis
      proof (cases "int (length mk) = n_dim + 1")
        case True
        then have n: "nat (n_dim + 1) = length mk" by simp
        from True l have "valid_index (length mk) n_dim"
          by (simp add: valid_index_def)
        with assms Some l t True show ?thesis
          unfolding n by (simp add: mark_surface_def snd_next_do_Inr_iff py_index_eq)
      next
        case False
        with Some l t show ?thesis
          by (simp add: mark_surface_def snd_next_do_Inr_iff)
      qed
    qed
  qed
qed

lemma plot_surface_steps:
  assumes "snd (plot_surface D A ph canvas title designer mesher animator mark np x y bp) = Inr an"
  shows "\<exists>first lx ly lz limx limy limz ax1 ax2 data.
           py_index ph 0 = Inr first \<and>
           py_index (label (surface_designer D designer)) x = Inr lx \<and>
           py_index (label (surface_designer D designer)) y = Inr ly \<and>
           py_index (label (surface_designer D designer)) (int (shape1 first) - 1) = Inr lz \<and>
           py_index (limits (surface_designer D designer)) x = Inr limx \<and>
           py_index (limits (surface_designer D designer)) y = Inr limy \<and>
           py_index (limits (surface_designer D designer)) (int (shape1 first) - 1) = Inr limz \<and>
           snd (surface_map
                  ((initialize_3d (case canvas of None \<Rightarrow> subplots | Some a \<Rightarrow> a))
                     \<lparr>ax_title := title, xlabel := lx, ylabel := ly, zlabel := lz,
                      xlim := Some limx, ylim := Some limy, zlim := Some limz\<rparr>)
                  (surface_designer D designer) mesher (int (shape1 first) - 1) np x y bp) =
             Inr ax1 \<and>
           snd (mark_surface ax1 mark (int (shape1 first) - 1) x y) = Inr ax2 \<and>
           take_columns ph [x, y, int (shape1 first) - 1] = Inr data \<and>
           an = \<lparr>an_axes = add_artist Scatter ax2, frames = [0 ..< length ph],
                  fargs_data = data, fargs_plot = \<lparr>offsets = [], offsets3d = []\<rparr>,
                  an_interval = interval (case animator of None \<Rightarrow> A | Some a \<Rightarrow> a),
                  an_repeat = repeat (case animator of None \<Rightarrow> A | Some a \<Rightarrow> a),
                  an_repeat_delay = repeat_delay (case animator of None \<Rightarrow> A | Some a \<Rightarrow> a)\<rparr>"
  using assms
  by (simp add: plot_surface_def Let_def snd_next_do_Inr_iff del: norm_indices.simps) blast

lemma plot_surface_Inr:
  assumes "snd (plot_surface D A ph canvas title designer mesher animator mark np x y bp) = Inr an"
  shows "surface_defined (surface_designer D designer) ph mesher np x y bp"
    and "frames an = [0 ..< length ph]"
    and "fargs_data an =
           map (map (\<lambda>row. [row ! col_of (shape1 (hd ph)) x, row ! col_of (shape1 (hd ph)) y,
                              row ! col_of (shape1 (hd ph)) (int (shape1 (hd ph)) - 1)])) ph"
    and "xlabel (an_axes an) =
           label (surface_designer D designer) ! col_of (length (label (surface_designer D designer))) x"
    and "ylabel (an_axes an) =
           label (surface_designer D designer) ! col_of (length (label (surface_designer D designer))) y"
    and "zlabel (an_axes an) =
           label (surface_designer D designer) !
             col_of (length (label (surface_designer D designer))) (int (shape1 (hd ph)) - 1)"
    and "xlim (an_axes an) =
           Some (limits (surface_designer D designer) !
                   col_of (length (limits (surface_designer D designer))) x)"
    and "ylim (an_axes an) =
           Some (limits (surface_designer D designer) !
                   col_of (length (limits (surface_designer D designer))) y)"
    and "zlim (an_axes an) =
           Some (limits (surface_designer D designer) !
                   col_of (length (limits (surface_designer D designer))) (int (shape1 (hd ph)) - 1))"
proof -
  let ?d = "surface_designer D designer"
  from plot_surface_steps [OF assms] obtain first lx ly lz limx limy limz ax1 ax2 data where
    f: "py_index ph 0 = Inr first"
    and lx: "py_index (label ?d) x = Inr lx" and ly: "py_index (label ?d) y = Inr ly"
    and lz: "py_index (label ?d) (int (shape1 first) - 1) = Inr lz"
    and limx: "py_index (limits ?d) x = Inr limx" and limy: "py_index (limits ?d) y = Inr limy"
    and limz: "py_index (limits ?d) (int (shape1 first) - 1) = Inr limz"
    and c: "snd (surface_map
                  ((initialize_3d (case canvas of None \<Rightarrow> subplots | Some a \<Rightarrow> a))
                     \<lparr>ax_title := title, xlabel := lx, ylabel := ly, zlabel := lz,
                      xlim := Some limx, ylim := Some limy, zlim := Some limz\<rparr>)
                  ?d mesher (int (shape1 first) - 1) np x y bp) = Inr ax1"
    and m: "snd (mark_surface ax1 mark (int (shape1 first) - 1) x y) = Inr ax2"
    and t: "take_columns ph [x, y, int (shape1 first) - 1] = Inr data"
    and an: "an = \<lparr>an_axes = add_artist Scatter ax2, frames = [0 ..< length ph],
                  fargs_data = data, fargs_plot = \<lparr>offsets = [], offsets3d = []\<rparr>,
                  an_interval = interval (case animator of None \<Rightarrow> A | Some a \<Rightarrow> a),
                  an_repeat = repeat (case animator of None \<Rightarrow> A | Some a \<Rightarrow> a),
                  an_repeat_delay = repeat_delay (case animator of None \<Rightarrow> A | Some a \<Rightarrow> a)\<rparr>"
    by blast
  from f have ne: "ph \<noteq> []" and hd: "hd ph = first"
    by (auto simp: py_index_first split: list.splits)
  from c have mesh_ok: "case mesher of None \<Rightarrow> True
      | Some m \<Rightarrow> (case mesh m np x y bp of Inl e \<Rightarrow> False | Inr r \<Rightarrow> True)"
    using surface_map_returns_iff by blast
  from t have r: "rectangular ph" and vx: "valid_index (shape1 (hd ph)) x"
    and vy: "valid_index (shape1 (hd ph)) y"
    and data: "data = map (map (\<lambda>row. [row ! col_of (shape1 (hd ph)) x,
                 row ! col_of (shape1 (hd ph)) y,
                 row ! col_of (shape1 (hd ph)) (int (shape1 (hd ph)) - 1)])) ph"
    by (auto simp: take_columns_three hd split: if_splits)
  from lx ly lz limx limy limz show "surface_defined ?d ph mesher np x y bp"
    using ne mesh_ok r vx vy
    by (auto simp: surface_defined_def py_index_eq hd split: if_splits)
  show "frames an = [0 ..< length ph]"
    by (simp add: an)
  show "fargs_data an =
      map (map (\<lambda>row. [row ! col_of (shape1 (hd ph)) x, row ! col_of (shape1 (hd ph)) y,
                         row ! col_of (shape1 (hd ph)) (int (shape1 (hd ph)) - 1)])) ph"
    by (simp add: an data)
  have keep: "xlabel ax2 = lx \<and> ylabel ax2 = ly \<and> zlabel ax2 = lz \<and>
      xlim ax2 = Some limx \<and> ylim ax2 = Some limy \<and> zlim ax2 = Some limz"
    using surface_map_keeps [OF c] mark_surface_keeps [OF m] by auto
  from lx keep show "xlabel (an_axes an) = label ?d ! col_of (length (label ?d)) x"
    by (auto simp: an py_index_eq split: if_splits)
  from ly keep show "ylabel (an_axes an) = label ?d ! col_of (length (label ?d)) y"
    by (auto simp: an py_index_eq split: if_splits)
  from lz keep show "zlabel (an_axes an) =
      label ?d ! col_of (length (label ?d)) (int (shape1 (hd ph)) - 1)"
    by (auto simp: an py_index_eq hd split: if_splits)
  from limx keep show "xlim (an_axes an) = Some (limits ?d ! col_of (length (limits ?d)) x)"
    by (auto simp: an py_index_eq split: if_splits)
  from limy keep show "ylim (an_axes an) = Some (limits ?d ! col_of (length (limits ?d)) y)"
    by (auto simp: an py_index_eq split: if_splits)
  from limz keep show "zlim (an_axes an) =
      Some (limits ?d ! col_of (length (limits ?d)) (int (shape1 (hd ph)) - 1))"
    by (auto simp: an py_index_eq hd split: if_splits)
qed

lemma plot_surface_returns:
  assumes "surface_defined (surface_designer D designer) ph mesher np x y bp"
  shows "\<exists>an. snd (plot_surface D A ph canvas title designer mesher animator mark np x y bp) = Inr an"
proof -
  let ?d = "surface_designer D designer"
  from assms obtain first rest where ph: "ph = first # rest"
    by (cases ph) (auto simp: surface_defined_def)
  let ?z = "int (shape1 first) - 1"
  let ?ax = "(initialize_3d (case canvas of None \<Rightarrow> subplots | Some a \<Rightarrow> a))
       \<lparr>ax_title := title, xlabel := label ?d ! col_of (length (label ?d)) x,
        ylabel := label ?d ! col_of (length (label ?d)) y,
        zlabel := label ?d ! col_of (length (label ?d)) ?z,
        xlim := Some (limits ?d ! col_of (length (limits ?d)) x),
        ylim := Some (limits ?d ! col_of (length (limits ?d)) y),
        zlim := Some (limits ?d ! col_of (length (limits ?d)) ?z)\<rparr>"
  from assms obtain ax1 where
    c: "snd (surface_map ?ax ?d mesher ?z np x y bp) = Inr ax1"
    using surface_map_returns_iff [of ?ax ?d mesher ?z np x y bp]
    by (auto simp: surface_defined_def)
  from assms ph have v: "valid_index (shape1 first) x" "valid_index (shape1 first) y"
    by (simp_all add: surface_defined_def)
  then have "valid_index (nat (?z + 1)) x" "valid_index (nat (?z + 1)) y"
    by simp_all
  from mark_surface_returns [OF this] obtain ax2 where
    m: "snd (mark_surface ax1 mark ?z x y) = Inr ax2"
    by blast
  have f: "py_index ph 0 = Inr first"
    by (simp add: ph py_index_first)
  from assms ph have l: "py_index (label ?d) x = Inr (label ?d ! col_of (length (label ?d)) x)"
      "py_index (label ?d) y = Inr (label ?d ! col_of (length (label ?d)) y)"
      "py_index (label ?d) ?z = Inr (label ?d ! col_of (length (label ?d)) ?z)"
      "py_index (limits ?d) x = Inr (limits ?d ! col_of (length (limits ?d)) x)"
      "py_index (limits ?d) y = Inr (limits ?d ! col_of (length (limits ?d)) y)"
      "py_index (limits ?d) ?z = Inr (limits ?d ! col_of (length (limits ?d)) ?z)"
    by (simp_all add: surface_defined_def py_index_eq)
  from v have "valid_index (shape1 first) ?z"
    by (auto simp: valid_index_def)
  with assms ph obtain data where t: "take_columns ph [x, y, ?z] = Inr data"
    by (auto simp: surface_defined_def take_columns_three)
  have "snd (plot_surface D A ph canvas title designer mesher animator mark np x y bp) =
      Inr \<lparr>an_axes = add_artist Scatter ax2, frames = [0 ..< length ph],
           fargs_data = data, fargs_plot = \<lparr>offsets = [], offsets3d = []\<rparr>,
           an_interval = interval (case animator of None \<Rightarrow> A | Some a \<Rightarrow> a),
           an_repeat = repeat (case animator of None \<Rightarrow> A | Some a \<Rightarrow> a),
           an_repeat_delay = repeat_delay (case animator of None \<Rightarrow> A | Some a \<Rightarrow> a)\<rparr>"
    by (simp add: plot_surface_def Let_def snd_next_do_of f l c m t del: norm_indices.simps)
  then show ?thesis ..
qed

lemma plot_surface_returns_iff:
  "(\<exists>an. snd (plot_surface D A ph canvas title designer mesher animator mark np x y bp) = Inr an)
     \<longleftrightarrow> surface_defined (surface_designer D designer) ph mesher np x y bp"
proof
  assume "\<exists>an. snd (plot_surface D A ph canvas title designer mesher animator mark np x y bp) = Inr an"
  then obtain an where
    "snd (plot_surface D A ph canvas title designer mesher animator mark np x y bp) = Inr an" ..
  then show "surface_defined (surface_designer D designer) ph mesher np x y bp"
    by (rule plot_surface_Inr(1))
next
  assume "surface_defined (surface_designer D designer) ph mesher np x y bp"
  then show "\<exists>an. snd (plot_surface D A ph canvas title designer mesher animator mark np x y bp) = Inr an"
    by (rule plot_surface_returns)
qed

subsection \<open>\<^verbatim>\<open>plot_cost_history\<close> and evaluated plots\<close>

lemma plot_cost_history_eq:
  "plot_cost_history D ch ax title designer =
     (if 2 \<le> length (label (cost_designer D designer)) then
        Inr ((add_artist (Line (map of_nat [0 ..< length ch]) ch (legend (cost_designer D designer)))
                (case ax of None \<Rightarrow> subplots | Some a \<Rightarrow> a))
             \<lparr>ax_title := title, legend_shown := True,
              xlabel := label (cost_designer D designer) ! 0,
              ylabel := label (cost_designer D designer) ! 1\<rparr>)
      else Inl IndexError)"
  by (auto simp: plot_cost_history_def Let_def py_index_eq valid_index_def)

lemma example_cost_history:
  "plot_cost_history example_Designer [5, 3, 2] None ''Cost History'' None =
     Inr \<lparr>has_zlim = False, ax_title = ''Cost History'', xlabel = ''Iterations'',
          ylabel = ''Cost'', zlabel = [], xlim = None, ylim = None, zlim = None,
          legend_shown = True, artists = [Line [0, 1, 2] [5, 3, 2] ''Cost'']\<rparr>"
  by code_simp

lemma example_contour_defined:
  "contour_defined (contour_designer example_Designer (Some example_Designer)) example_history
     None None 0 2 None"
  by code_simp

lemma example_surface_defined:
  "surface_defined (surface_designer example_Designer None) example_history
     None None 0 1 None"
  by code_simp

lemma example_frames:
  "map (\<lambda>row. [row ! nat 0, row ! nat 2]) (example_history ! 1) =
     [[Num 7, Num 9], [Num 10, Num 12]]"
  "transpose (map (\<lambda>row. [row ! nat 0, row ! nat 1, row ! (shape1 (hd example_history) - 1)])
     (example_history ! 1)) = [[Num 7, Num 10], [Num 8, Num 11], [Num 9, Num 12]]"
  "[0 ..< length example_history] = [0, 1]"
  by code_simp+

lemma example_labels_defined:
  "contour_defined (contour_designer example_Designer (Some example_labels)) example_history
     None None 1 0 None"
  "surface_defined (surface_designer example_Designer (Some example_labels)) example_history
     None None 1 0 None"
  by code_simp+


lemma example_axis_values:
  "axis_values example_mesher 2 = [5, 6]"
  "axis_values example_mesher 0 = [0, 1, 2]"
  by code_simp+

section \<open>Parallel and sequential evaluation of the grid\<close>



section \<open>The values on the grid\<close>



section \<open>The shape of the result\<close>

text \<open>
  Claim C10. For an objective that returns one value per point it is given, \<^verbatim>\<open>_mesh\<close>
  returns exactly on the arguments described by \<^verbatim>\<open>mesh_defined\<close>, and the three arrays of
  every result have the same shape: as many rows as \<^verbatim>\<open>np.arange\<close> gives y values and as
  many columns as it gives x values.
\<close>

theorem mesh_result_shape:
  assumes "\<And>pts. length (func m pts) = length pts"
  shows "((\<exists>r. mesh m n_processes x_index y_index best_pos = Inr r) \<longleftrightarrow>
            mesh_defined m n_processes x_index y_index best_pos) \<and>
         (\<forall>xx yy zz. mesh m n_processes x_index y_index best_pos = Inr (xx, yy, zz) \<longrightarrow>
            has_shape xx (length (axis_values m (col_of (length (m_limits m)) y_index)))
                         (length (axis_values m (col_of (length (m_limits m)) x_index))) \<and>
            has_shape yy (length (axis_values m (col_of (length (m_limits m)) y_index)))
                         (length (axis_values m (col_of (length (m_limits m)) x_index))) \<and>
            has_shape zz (length (axis_values m (col_of (length (m_limits m)) y_index)))
                         (length (axis_values m (col_of (length (m_limits m)) x_index))))"
proof (intro conjI allI impI)
  show "(\<exists>r. mesh m n_processes x_index y_index best_pos = Inr r) \<longleftrightarrow>
          mesh_defined m n_processes x_index y_index best_pos"
    using assms by (rule mesh_returns_iff)
next
  fix xx yy zz
  assume "mesh m n_processes x_index y_index best_pos = Inr (xx, yy, zz)"
  from mesh_Inr_parts [OF this] obtain z where
    r: "reshape z (length (axis_values m (col_of (length (m_limits m)) y_index)))
          (length (axis_values m (col_of (length (m_limits m)) x_index))) = Inr zz"
    and xx: "xx = replicate (length (axis_values m (col_of (length (m_limits m)) y_index)))
          (axis_values m (col_of (length (m_limits m)) x_index))"
    and yy: "yy = map (replicate (length (axis_values m (col_of (length (m_limits m)) x_index))))
          (axis_values m (col_of (length (m_limits m)) y_index))"
    by blast
  show "has_shape xx (length (axis_values m (col_of (length (m_limits m)) y_index)))
          (length (axis_values m (col_of (length (m_limits m)) x_index)))"
    by (simp add: xx has_shape_def list_all_length)
  show "has_shape yy (length (axis_values m (col_of (length (m_limits m)) y_index)))
          (length (axis_values m (col_of (length (m_limits m)) x_index)))"
    by (simp add: yy has_shape_def list_all_length)
  show "has_shape zz (length (axis_values m (col_of (length (m_limits m)) y_index)))
          (length (axis_values m (col_of (length (m_limits m)) x_index)))"
    using r by (rule has_shape_reshape)
qed

theorem mesh_result_shape_witness:
  "mesh_defined example_mesher (Some 2) 2 0 (Some [7, 8, 9]) \<and>
   (\<exists>xx yy zz. mesh example_mesher (Some 2) 2 0 (Some [7, 8, 9]) = Inr (xx, yy, zz) \<and>
      has_shape xx 3 2 \<and> has_shape yy 3 2 \<and> has_shape zz 3 2)"
proof -
  have lp: "length (func example_mesher pts) = length pts" for pts
    by (simp add: example_mesher_def)
  have d: "mesh_defined example_mesher (Some 2) 2 0 (Some [7, 8, 9])"
    by (simp add: mesh_defined_def example_mesher_def valid_index_def tile_width_def)
  note t = mesh_result_shape [of example_mesher "Some 2" 2 0 "Some [7, 8, 9]", OF lp]
  from t d obtain r where r: "mesh example_mesher (Some 2) 2 0 (Some [7, 8, 9]) = Inr r"
    by blast
  obtain xx yy zz where "r = (xx, yy, zz)"
    by (cases r) auto
  have c: "col_of (length (m_limits example_mesher)) 2 = 2"
      "col_of (length (m_limits example_mesher)) 0 = 0"
    by (simp_all add: col_of_def)
  have n: "length (axis_values example_mesher (col_of (length (m_limits example_mesher)) 0)) = 3"
      "length (axis_values example_mesher (col_of (length (m_limits example_mesher)) 2)) = 2"
    by (simp_all only: c example_axis_values) simp_all
  from t r have "has_shape xx 3 2 \<and> has_shape yy 3 2 \<and> has_shape zz 3 2"
    unfolding \<open>r = (xx, yy, zz)\<close> n by blast
  with d r \<open>r = (xx, yy, zz)\<close> show ?thesis by blast
qed

section \<open>The multi-dimension branch\<close>

text \<open>
  Claim C8, as amended. Whenever \<^verbatim>\<open>x_index\<close> is not 0, or \<^verbatim>\<open>y_index\<close> is not 1, or
  \<^verbatim>\<open>best_pos\<close> is not \<^verbatim>\<open>None\<close>, \<^verbatim>\<open>_mesh\<close> tiles \<^verbatim>\<open>best_pos\<close> into one row per grid
  point and overwrites the columns \<^verbatim>\<open>x_index\<close> and \<^verbatim>\<open>y_index\<close> with the grid coordinates.
  The tiled array has \<^verbatim>\<open>len(best_pos)\<close> columns for a vector and one column for
  \<^verbatim>\<open>best_pos = None\<close>; the branch succeeds exactly when both indices are valid for that
  width, and raises \<^verbatim>\<open>IndexError\<close> otherwise. So with \<^verbatim>\<open>best_pos = None\<close> it succeeds
  exactly for indices among 0 and -1, and for a vector and indices that are not negative it
  needs \<^verbatim>\<open>len(best_pos) >= max(x_index, y_index) + 1\<close>. When the branch fails so does
  \<^verbatim>\<open>_mesh\<close>, and for an objective that returns one value per point \<^verbatim>\<open>_mesh\<close> returns exactly
  on the arguments described by \<^verbatim>\<open>mesh_defined\<close>.
\<close>

theorem mesh_multi_dimension_branch:
  assumes "x_index \<noteq> 0 \<or> y_index \<noteq> 1 \<or> best_pos \<noteq> None"
  shows "prepare x_index y_index best_pos pts =
           (if valid_index (tile_width best_pos) x_index \<and>
               valid_index (tile_width best_pos) y_index
            then Inr (map (\<lambda>r. ((tile_row best_pos)
                        [col_of (tile_width best_pos) x_index := r ! 0])
                        [col_of (tile_width best_pos) y_index := r ! 1]) pts)
            else Inl IndexError) \<and>
         tile_width best_pos = (case best_pos of None \<Rightarrow> 1 | Some b \<Rightarrow> length b) \<and>
         (best_pos = None \<longrightarrow>
            (valid_index (tile_width best_pos) x_index \<and> valid_index (tile_width best_pos) y_index
               \<longleftrightarrow> (x_index = 0 \<or> x_index = - 1) \<and> (y_index = 0 \<or> y_index = - 1))) \<and>
         (best_pos \<noteq> None \<and> 0 \<le> x_index \<and> 0 \<le> y_index \<longrightarrow>
            (valid_index (tile_width best_pos) x_index \<and> valid_index (tile_width best_pos) y_index
               \<longleftrightarrow> max x_index y_index + 1 \<le> int (tile_width best_pos))) \<and>
         (\<not> (valid_index (tile_width best_pos) x_index \<and>
              valid_index (tile_width best_pos) y_index) \<longrightarrow>
            (\<exists>e. mesh m n_processes x_index y_index best_pos = Inl e)) \<and>
         ((\<forall>a. length (func m a) = length a) \<longrightarrow>
            ((\<exists>r. mesh m n_processes x_index y_index best_pos = Inr r) \<longleftrightarrow>
               mesh_defined m n_processes x_index y_index best_pos))"
proof (intro conjI impI)
  show "prepare x_index y_index best_pos pts =
           (if valid_index (tile_width best_pos) x_index \<and>
               valid_index (tile_width best_pos) y_index
            then Inr (map (\<lambda>r. ((tile_row best_pos)
                        [col_of (tile_width best_pos) x_index := r ! 0])
                        [col_of (tile_width best_pos) y_index := r ! 1]) pts)
            else Inl IndexError)"
    using assms by (simp add: prepare_eq)
  show "tile_width best_pos = (case best_pos of None \<Rightarrow> 1 | Some b \<Rightarrow> length b)"
    by (simp add: tile_width_def)
  show "(valid_index (tile_width best_pos) x_index \<and> valid_index (tile_width best_pos) y_index)
      = ((x_index = 0 \<or> x_index = - 1) \<and> (y_index = 0 \<or> y_index = - 1))"
    if "best_pos = None"
    using that by (auto simp: valid_index_def tile_width_def)
  show "(valid_index (tile_width best_pos) x_index \<and> valid_index (tile_width best_pos) y_index)
      = (max x_index y_index + 1 \<le> int (tile_width best_pos))"
    if "best_pos \<noteq> None \<and> 0 \<le> x_index \<and> 0 \<le> y_index"
    using that by (auto simp: valid_index_def)
  show "\<exists>e. mesh m n_processes x_index y_index best_pos = Inl e"
    if "\<not> (valid_index (tile_width best_pos) x_index \<and>
              valid_index (tile_width best_pos) y_index)"
    using that assms by (auto simp: mesh_eq prepare_eq)
  show "(\<exists>r. mesh m n_processes x_index y_index best_pos = Inr r) =
      mesh_defined m n_processes x_index y_index best_pos"
    if "\<forall>a. length (func m a) = length a"
    using that by (intro mesh_returns_iff) simp
qed

theorem mesh_multi_dimension_branch_witness:
  "prepare 2 0 (Some [7, 8, 9]) [[Num 5, Num 1]] = Inr [[Num 1, Num 8, Num 5]] \<and>
   prepare 0 0 None [[Num 5, Num 1]] = Inr [[Num 1]] \<and>
   (\<exists>e. mesh example_mesher None 1 0 None = Inl e)"
proof -
  have "prepare 2 0 (Some [7, 8, 9]) [[Num 5, Num 1]] = Inr [[Num 1, Num 8, Num 5]]"
    using mesh_multi_dimension_branch [of 2 0 "Some [7, 8, 9]" "[[Num 5, Num 1]]"]
    by (simp add: valid_index_def tile_width_def tile_row_def col_of_def)
  moreover have "prepare 0 0 None [[Num 5, Num 1]] = Inr [[Num 1]]"
    using mesh_multi_dimension_branch [of 0 0 None "[[Num 5, Num 1]]"]
    by (simp add: valid_index_def tile_width_def tile_row_def col_of_def)
  moreover have "\<exists>e. mesh example_mesher None 1 0 None = Inl e"
    using mesh_multi_dimension_branch [of 1 0 None "[]" example_mesher None]
    by (simp add: valid_index_def tile_width_def)
  ultimately show ?thesis by blast
qed

text \<open>
  The claim as it was stated says that a call with other indices than 0 and 1 and
  \<^verbatim>\<open>best_pos = None\<close> has no result. With both indices 0 the one column of the tiled array
  receives the x values and then the y values, and the call returns.
\<close>

theorem mesh_none_counterexample:
  "mesh example_mesher None 0 0 None =
     Inr ([[0, 1, 2], [0, 1, 2], [0, 1, 2]], [[0, 0, 0], [1, 1, 1], [2, 2, 2]],
          [[0, 0, 0], [1, 1, 1], [2, 2, 2]])"
  by code_simp

section \<open>Out-of-range plotting indices\<close>

text \<open>
  Claim C2, as amended. For a history with at least one iteration, an index \<^verbatim>\<open>x\<close> or
  \<^verbatim>\<open>y\<close> outside \<^verbatim>\<open>0 .. n_dim - 1\<close> makes \<^verbatim>\<open>plot_contour\<close> log the warning for that axis
  and go on. The call then fails whenever an index is \<^verbatim>\<open>n_dim\<close> or more, or less than
  \<^verbatim>\<open>-n_dim\<close>; it returns the animation exactly on the arguments described by
  \<^verbatim>\<open>contour_defined\<close>, so an out-of-range index lets it return only when it is a negative
  index that counts from the end of the dimensions, of the labels and of the limits.
\<close>

theorem plot_contour_invalid_index:
  assumes "pos_history \<noteq> []"
  shows "(x < 0 \<or> int (shape1 (hd pos_history)) \<le> x \<longrightarrow>
            ''Index of dimension to plot on x-axis out of bound.'' \<in>
              set (fst (plot_contour D A pos_history canvas title mark designer mesher animator
                     n_processes x y best_pos))) \<and>
         (y < 0 \<or> int (shape1 (hd pos_history)) \<le> y \<longrightarrow>
            ''Index of dimension to plot on y-axis out of bound.'' \<in>
              set (fst (plot_contour D A pos_history canvas title mark designer mesher animator
                     n_processes x y best_pos))) \<and>
         (int (shape1 (hd pos_history)) \<le> x \<or> x < - int (shape1 (hd pos_history)) \<or>
          int (shape1 (hd pos_history)) \<le> y \<or> y < - int (shape1 (hd pos_history)) \<longrightarrow>
            (\<exists>e. snd (plot_contour D A pos_history canvas title mark designer mesher animator
                     n_processes x y best_pos) = Inl e)) \<and>
         ((\<exists>an. snd (plot_contour D A pos_history canvas title mark designer mesher animator
                     n_processes x y best_pos) = Inr an) \<longleftrightarrow>
            contour_defined (contour_designer D designer) pos_history mesher n_processes x y
              best_pos)"
proof (intro conjI impI)
  let ?R = "plot_contour D A pos_history canvas title mark designer mesher animator
              n_processes x y best_pos"
  from plot_contour_log [OF assms] obtain later where
    log: "fst ?R = fst (checks_contour (contour_designer D designer)
                          (int (shape1 (hd pos_history))) x y) @ later"
    by blast
  show "''Index of dimension to plot on x-axis out of bound.'' \<in> set (fst ?R)"
    if "x < 0 \<or> int (shape1 (hd pos_history)) \<le> x"
    using that by (simp add: log x_warning_iff)
  show "''Index of dimension to plot on y-axis out of bound.'' \<in> set (fst ?R)"
    if "y < 0 \<or> int (shape1 (hd pos_history)) \<le> y"
    using that by (simp add: log y_warning_iff)
  show iff: "(\<exists>an. snd ?R = Inr an) \<longleftrightarrow>
      contour_defined (contour_designer D designer) pos_history mesher n_processes x y best_pos"
    by (rule plot_contour_returns_iff)
  show "\<exists>e. snd ?R = Inl e"
    if "int (shape1 (hd pos_history)) \<le> x \<or> x < - int (shape1 (hd pos_history)) \<or>
        int (shape1 (hd pos_history)) \<le> y \<or> y < - int (shape1 (hd pos_history))"
  proof -
    from that have "\<not> contour_defined (contour_designer D designer) pos_history mesher
        n_processes x y best_pos"
      by (auto simp: contour_defined_def valid_index_def)
    with iff have "\<not> (\<exists>an. snd ?R = Inr an)"
      by simp
    then show ?thesis
      by (cases "snd ?R") auto
  qed
qed

theorem plot_contour_invalid_index_witness:
  "''Index of dimension to plot on x-axis out of bound.'' \<in>
     set (fst (plot_contour example_Designer example_Animator example_history None ''Trajectory''
                 None (Some example_Designer) None None None (- 1) 1 None)) \<and>
   (\<exists>an. snd (plot_contour example_Designer example_Animator example_history None ''Trajectory''
                 None (Some example_Designer) None None None (- 1) 1 None) = Inr an) \<and>
   ''Index of dimension to plot on x-axis out of bound.'' \<in>
     set (fst (plot_contour example_Designer example_Animator example_history None ''Trajectory''
                 None (Some example_Designer) None None None 3 1 None)) \<and>
   (\<exists>e. snd (plot_contour example_Designer example_Animator example_history None ''Trajectory''
                 None (Some example_Designer) None None None 3 1 None) = Inl e)"
proof -
  have ne: "example_history \<noteq> []" and n: "shape1 (hd example_history) = 3"
    by (simp_all add: example_history_def shape1_def)
  have d: "contour_defined (contour_designer example_Designer (Some example_Designer))
      example_history None None (- 1) 1 None"
    by code_simp
  note t = plot_contour_invalid_index [OF ne, where D = example_Designer
      and A = example_Animator and canvas = None and title = "''Trajectory''" and mark = None
      and designer = "Some example_Designer" and mesher = None and animator = None
      and n_processes = None and y = 1 and best_pos = None]
  from t [where x = "- 1"] d t [where x = 3] show ?thesis
    by (simp add: n)
qed

text \<open>
  The claim as it was stated says that an invalid index never makes the call fail. With
  three dimensions, a designer for three dimensions and \<^verbatim>\<open>x = 3\<close>, the warning is logged
  and \<^verbatim>\<open>designer.label[3]\<close> raises \<^verbatim>\<open>IndexError\<close>.
\<close>

theorem plot_contour_out_of_range_counterexample:
  "plot_contour example_Designer example_Animator example_history None ''Trajectory'' None
     (Some example_Designer) None None None 3 1 None =
   ([''Index of dimension to plot on x-axis out of bound.''], Inl IndexError)"
  by code_simp

section \<open>The designer checks\<close>

text \<open>
  Claim C3 says that the warnings about the limits and the labels of the designer are
  logged exactly when their number differs from \<^verbatim>\<open>n_dim\<close>. The code compares with
  \<^verbatim>\<open>is not\<close>: for a history of 257 dimensions and a designer with 257 limits and 257
  labels both warnings are logged, although the numbers are equal.
\<close>

theorem designer_warnings_at_257_dimensions:
  "length (limits wide_designer) = shape1 (hd wide_history) \<and>
   length (label wide_designer) = shape1 (hd wide_history) \<and>
   ''Limits in designer has incorrect dimensions.'' \<in>
     set (fst (plot_contour example_Designer example_Animator wide_history None ''Trajectory''
                 None (Some wide_designer) None None None 0 1 None)) \<and>
   ''Labels in designer has incorrect dimensions.'' \<in>
     set (fst (plot_contour example_Designer example_Animator wide_history None ''Trajectory''
                 None (Some wide_designer) None None None 0 1 None))"
proof -
  have ne: "wide_history \<noteq> []" and n: "shape1 (hd wide_history) = 257"
    by (simp_all add: wide_history_def shape1_def)
  have l: "length (limits wide_designer) = 257" "length (label wide_designer) = 257"
    by (simp_all add: wide_designer_def)
  from plot_contour_log [OF ne] obtain later where
    "fst (plot_contour example_Designer example_Animator wide_history None ''Trajectory''
            None (Some wide_designer) None None None 0 1 None) =
       fst (checks_contour (contour_designer example_Designer (Some wide_designer))
              (int (shape1 (hd wide_history))) 0 1) @ later"
    by blast
  then show ?thesis
    by (simp add: n l limits_warning_iff labels_warning_iff contour_designer_def py_is_def)
qed

section \<open>Animation by iteration\<close>

text \<open>
  Claim C5. For indices \<^verbatim>\<open>x\<close> and \<^verbatim>\<open>y\<close> that are not negative, \<^verbatim>\<open>plot_contour\<close> and
  \<^verbatim>\<open>plot_surface\<close> return exactly on the arguments described by \<^verbatim>\<open>contour_defined\<close> and
  \<^verbatim>\<open>surface_defined\<close>, and the animation they return has the frames
  \<^verbatim>\<open>0 .. n_iters - 1\<close> in order; for frame \<^verbatim>\<open>i\<close>, \<^verbatim>\<open>_animate\<close> gives the scatter plot the
  positions of iteration \<^verbatim>\<open>i\<close>: the columns \<^verbatim>\<open>x\<close> and \<^verbatim>\<open>y\<close> of \<^verbatim>\<open>pos_history[i]\<close> as
  offsets for \<^verbatim>\<open>plot_contour\<close>; the columns \<^verbatim>\<open>x\<close>, \<^verbatim>\<open>y\<close> and the last one (the
  fitness), transposed, as three-dimensional offsets for \<^verbatim>\<open>plot_surface\<close>.
\<close>

theorem animation_by_iteration:
  assumes "0 \<le> x" and "0 \<le> y"
  shows "((\<exists>an. snd (plot_contour D A pos_history canvas title mark designer mesher animator
                     n_processes x y best_pos) = Inr an) \<longleftrightarrow>
            contour_defined (contour_designer D designer) pos_history mesher n_processes x y
              best_pos) \<and>
         (\<forall>an. snd (plot_contour D A pos_history canvas title mark designer mesher animator
                     n_processes x y best_pos) = Inr an \<longrightarrow>
            frames an = [0 ..< length pos_history] \<and>
            (\<forall>i < length pos_history.
               animate (int i) (fargs_data an) (fargs_plot an) =
                 Inr ((fargs_plot an)
                        \<lparr>offsets := map (\<lambda>row. [row ! nat x, row ! nat y]) (pos_history ! i)\<rparr>))) \<and>
         ((\<exists>an. snd (plot_surface D A pos_history canvas title designer mesher animator mark
                     n_processes x y best_pos) = Inr an) \<longleftrightarrow>
            surface_defined (surface_designer D designer) pos_history mesher n_processes x y
              best_pos) \<and>
         (\<forall>an. snd (plot_surface D A pos_history canvas title designer mesher animator mark
                     n_processes x y best_pos) = Inr an \<longrightarrow>
            frames an = [0 ..< length pos_history] \<and>
            (\<forall>i < length pos_history.
               animate (int i) (fargs_data an) (fargs_plot an) =
                 Inr ((fargs_plot an)
                        \<lparr>offsets3d :=
                           transpose (map (\<lambda>row. [row ! nat x, row ! nat y,
                                                    row ! (shape1 (hd pos_history) - 1)])
                                        (pos_history ! i))\<rparr>)))"
proof (intro conjI allI impI)
  show "(\<exists>an. snd (plot_contour D A pos_history canvas title mark designer mesher animator
                     n_processes x y best_pos) = Inr an) \<longleftrightarrow>
          contour_defined (contour_designer D designer) pos_history mesher n_processes x y best_pos"
    by (rule plot_contour_returns_iff)
  show "(\<exists>an. snd (plot_surface D A pos_history canvas title designer mesher animator mark
                     n_processes x y best_pos) = Inr an) \<longleftrightarrow>
          surface_defined (surface_designer D designer) pos_history mesher n_processes x y best_pos"
    by (rule plot_surface_returns_iff)
next
  fix an
  assume r: "snd (plot_contour D A pos_history canvas title mark designer mesher animator
                     n_processes x y best_pos) = Inr an"
  show "frames an = [0 ..< length pos_history]"
    using r by (rule plot_contour_Inr(2))
  fix i
  assume i: "i < length pos_history"
  from plot_contour_Inr(1) [OF r] have rect: "rectangular pos_history"
    and v: "valid_index (shape1 (hd pos_history)) x"
    by (simp_all add: contour_defined_def)
  from animate_two_columns [OF rect i valid_index_pos [OF v]] assms
  show "animate (int i) (fargs_data an) (fargs_plot an) =
          Inr ((fargs_plot an)
                 \<lparr>offsets := map (\<lambda>row. [row ! nat x, row ! nat y]) (pos_history ! i)\<rparr>)"
    by (simp add: plot_contour_Inr(3) [OF r])
next
  fix an
  assume r: "snd (plot_surface D A pos_history canvas title designer mesher animator mark
                     n_processes x y best_pos) = Inr an"
  show "frames an = [0 ..< length pos_history]"
    using r by (rule plot_surface_Inr(2))
  fix i
  assume i: "i < length pos_history"
  from plot_surface_Inr(1) [OF r] have rect: "rectangular pos_history"
    and v: "valid_index (shape1 (hd pos_history)) x"
    by (simp_all add: surface_defined_def)
  from valid_index_pos [OF v]
  have z: "col_of (shape1 (hd pos_history)) (int (shape1 (hd pos_history)) - 1) =
      shape1 (hd pos_history) - 1"
    by (simp add: col_of_def nat_diff_distrib')
  from animate_three_columns [OF rect i valid_index_pos [OF v]] assms
  show "animate (int i) (fargs_data an) (fargs_plot an) =
          Inr ((fargs_plot an)
                 \<lparr>offsets3d :=
                    transpose (map (\<lambda>row. [row ! nat x, row ! nat y,
                                             row ! (shape1 (hd pos_history) - 1)])
                                 (pos_history ! i))\<rparr>)"
    by (simp add: plot_surface_Inr(3) [OF r] z)
qed

theorem animation_by_iteration_witness:
  "(\<exists>an. snd (plot_contour example_Designer example_Animator example_history None ''Trajectory''
              None (Some example_Designer) None None None 0 2 None) = Inr an \<and>
         frames an = [0, 1] \<and>
         animate 1 (fargs_data an) (fargs_plot an) =
           Inr ((fargs_plot an)\<lparr>offsets := [[Num 7, Num 9], [Num 10, Num 12]]\<rparr>)) \<and>
   (\<exists>an. snd (plot_surface example_Designer example_Animator example_history None ''Trajectory''
              None None None None None 0 1 None) = Inr an \<and>
         frames an = [0, 1] \<and>
         animate 1 (fargs_data an) (fargs_plot an) =
           Inr ((fargs_plot an)
                  \<lparr>offsets3d := [[Num 7, Num 10], [Num 8, Num 11], [Num 9, Num 12]]\<rparr>))"
proof -
  note t = animation_by_iteration [where x = 0 and y = 2 and D = example_Designer
      and A = example_Animator and pos_history = example_history and canvas = None
      and title = "''Trajectory''" and mark = None and designer = "Some example_Designer"
      and mesher = None and animator = None and n_processes = None and best_pos = None,
      simplified]
  note u = animation_by_iteration [where x = 0 and y = 1 and D = example_Designer
      and A = example_Animator and pos_history = example_history and canvas = None
      and title = "''Trajectory''" and mark = None and designer = None
      and mesher = None and animator = None and n_processes = None and best_pos = None,
      simplified]
  have l: "1 < length example_history"
    by (simp add: example_history_def)
  from t example_contour_defined obtain an where
    a: "snd (plot_contour example_Designer example_Animator example_history None ''Trajectory''
              None (Some example_Designer) None None None 0 2 None) = Inr an"
    by blast
  from u example_surface_defined obtain an3 where
    b: "snd (plot_surface example_Designer example_Animator example_history None ''Trajectory''
              None None None None None 0 1 None) = Inr an3"
    by blast
  from t a l have "frames an = [0, 1] \<and>
      animate 1 (fargs_data an) (fargs_plot an) =
        Inr ((fargs_plot an)\<lparr>offsets := [[Num 7, Num 9], [Num 10, Num 12]]\<rparr>)"
    using example_frames by force
  moreover from u b l have "frames an3 = [0, 1] \<and>
      animate 1 (fargs_data an3) (fargs_plot an3) =
        Inr ((fargs_plot an3)
               \<lparr>offsets3d := [[Num 7, Num 10], [Num 8, Num 11], [Num 9, Num 12]]\<rparr>)"
    using example_frames by force
  ultimately show ?thesis
    using a b by blast
qed

section \<open>The cost history\<close>

text \<open>
  Claim C6. \<^verbatim>\<open>plot_cost_history\<close> returns exactly when the designer in use has two
  labels, which the default designer has. The axes it returns are the axes passed in (fresh
  ones when none is passed) with a title, a legend, the two axis labels and one more
  artist: the line whose x values are \<^verbatim>\<open>0 .. iters - 1\<close> and whose y values are the cost
  history.
\<close>

theorem plot_cost_history_line:
  shows "((\<exists>a. plot_cost_history D cost_history ax title designer = Inr a) \<longleftrightarrow>
            2 \<le> length (label (cost_designer D designer))) \<and>
         (\<exists>a. plot_cost_history D cost_history ax title None = Inr a) \<and>
         (\<forall>a. plot_cost_history D cost_history ax title designer = Inr a \<longrightarrow>
            (\<exists>xs. artists a =
                    artists (case ax of None \<Rightarrow> subplots | Some a0 \<Rightarrow> a0) @
                      [Line xs cost_history (legend (cost_designer D designer))] \<and>
                  length xs = length cost_history \<and>
                  (\<forall>i < length cost_history. xs ! i = of_nat i)) \<and>
            a = (case ax of None \<Rightarrow> subplots | Some a0 \<Rightarrow> a0)
                  \<lparr>artists := artists a, ax_title := title, legend_shown := True,
                   xlabel := label (cost_designer D designer) ! 0,
                   ylabel := label (cost_designer D designer) ! 1\<rparr>)"
proof (intro conjI allI impI)
  show "(\<exists>a. plot_cost_history D cost_history ax title designer = Inr a) \<longleftrightarrow>
          2 \<le> length (label (cost_designer D designer))"
    by (simp add: plot_cost_history_eq)
  show "\<exists>a. plot_cost_history D cost_history ax title None = Inr a"
    by (simp add: plot_cost_history_eq cost_designer_def)
next
  fix a
  assume r: "plot_cost_history D cost_history ax title designer = Inr a"
  then have a: "a = (add_artist (Line (map of_nat [0 ..< length cost_history]) cost_history
                        (legend (cost_designer D designer)))
                      (case ax of None \<Rightarrow> subplots | Some a \<Rightarrow> a))
                    \<lparr>ax_title := title, legend_shown := True,
                     xlabel := label (cost_designer D designer) ! 0,
                     ylabel := label (cost_designer D designer) ! 1\<rparr>"
    by (simp add: plot_cost_history_eq split: if_splits)
  have "artists a = artists (case ax of None \<Rightarrow> subplots | Some a0 \<Rightarrow> a0) @
          [Line (map of_nat [0 ..< length cost_history]) cost_history
             (legend (cost_designer D designer))] \<and>
        length (map of_nat [0 ..< length cost_history] :: rat list) = length cost_history \<and>
        (\<forall>i < length cost_history.
           (map of_nat [0 ..< length cost_history] :: rat list) ! i = of_nat i)"
    by (simp add: a add_artist_def)
  then show "\<exists>xs. artists a =
                    artists (case ax of None \<Rightarrow> subplots | Some a0 \<Rightarrow> a0) @
                      [Line xs cost_history (legend (cost_designer D designer))] \<and>
                  length xs = length cost_history \<and>
                  (\<forall>i < length cost_history. xs ! i = of_nat i)"
    by blast
  show "a = (case ax of None \<Rightarrow> subplots | Some a0 \<Rightarrow> a0)
                  \<lparr>artists := artists a, ax_title := title, legend_shown := True,
                   xlabel := label (cost_designer D designer) ! 0,
                   ylabel := label (cost_designer D designer) ! 1\<rparr>"
    by (simp add: a add_artist_def)
qed

theorem plot_cost_history_line_witness:
  "plot_cost_history example_Designer [5, 3, 2] None ''Cost History'' None =
     Inr \<lparr>has_zlim = False, ax_title = ''Cost History'', xlabel = ''Iterations'',
          ylabel = ''Cost'', zlabel = [], xlim = None, ylim = None, zlim = None,
          legend_shown = True, artists = [Line [0, 1, 2] [5, 3, 2] ''Cost'']\<rparr> \<and>
   2 \<le> length (label (cost_designer example_Designer None)) \<and>
   (\<exists>xs. [Line [0, 1, 2] [5, 3, 2] ''Cost''] =
            [Line xs [5, 3, 2] (legend (cost_designer example_Designer None))] \<and>
          xs ! 2 = 2)"
proof -
  note t = plot_cost_history_line [where D = example_Designer and cost_history = "[5, 3, 2]"
      and ax = None and title = "''Cost History''" and designer = None]
  from t example_cost_history
  have l: "2 \<le> length (label (cost_designer example_Designer None))"
    by blast
  from t example_cost_history obtain xs where
    "[Line [0, 1, 2] [5, 3, 2] ''Cost''] =
       artists subplots @ [Line xs [5, 3, 2] (legend (cost_designer example_Designer None))]"
    "\<forall>i < length [5, 3, 2 :: rat]. xs ! i = of_nat i"
    by auto
  then have "[Line [0, 1, 2] [5, 3, 2] ''Cost''] =
       [Line xs [5, 3, 2] (legend (cost_designer example_Designer None))] \<and> xs ! 2 = 2"
    by (simp add: subplots_def)
  with l example_cost_history show ?thesis
    by blast
qed

section \<open>Axis labels and limits\<close>

text \<open>
  Claim C7. For indices \<^verbatim>\<open>x\<close> and \<^verbatim>\<open>y\<close> that are not negative, the axes of the animation
  that \<^verbatim>\<open>plot_contour\<close> returns have the x label and limits \<^verbatim>\<open>designer.label[x]\<close> and
  \<^verbatim>\<open>designer.limits[x]\<close> and the y label and limits \<^verbatim>\<open>designer.label[y]\<close> and
  \<^verbatim>\<open>designer.limits[y]\<close>; those of \<^verbatim>\<open>plot_surface\<close> have the same and the z label and
  limits \<^verbatim>\<open>designer.label[n_dim]\<close> and \<^verbatim>\<open>designer.limits[n_dim]\<close>, where \<^verbatim>\<open>n_dim\<close> is
  the index of the fitness column, the last one of the history. All these entries exist.
\<close>

theorem axis_labels_and_limits:
  assumes "0 \<le> x" and "0 \<le> y"
  shows "((\<exists>an. snd (plot_contour D A pos_history canvas title mark designer mesher animator
                     n_processes x y best_pos) = Inr an) \<longleftrightarrow>
            contour_defined (contour_designer D designer) pos_history mesher n_processes x y
              best_pos) \<and>
         (\<forall>an. snd (plot_contour D A pos_history canvas title mark designer mesher animator
                     n_processes x y best_pos) = Inr an \<longrightarrow>
            xlabel (an_axes an) = label (contour_designer D designer) ! nat x \<and>
            xlim (an_axes an) = Some (limits (contour_designer D designer) ! nat x) \<and>
            ylabel (an_axes an) = label (contour_designer D designer) ! nat y \<and>
            ylim (an_axes an) = Some (limits (contour_designer D designer) ! nat y) \<and>
            nat x < length (label (contour_designer D designer)) \<and>
            nat x < length (limits (contour_designer D designer)) \<and>
            nat y < length (label (contour_designer D designer)) \<and>
            nat y < length (limits (contour_designer D designer))) \<and>
         ((\<exists>an. snd (plot_surface D A pos_history canvas title designer mesher animator mark
                     n_processes x y best_pos) = Inr an) \<longleftrightarrow>
            surface_defined (surface_designer D designer) pos_history mesher n_processes x y
              best_pos) \<and>
         (\<forall>an. snd (plot_surface D A pos_history canvas title designer mesher animator mark
                     n_processes x y best_pos) = Inr an \<longrightarrow>
            xlabel (an_axes an) = label (surface_designer D designer) ! nat x \<and>
            xlim (an_axes an) = Some (limits (surface_designer D designer) ! nat x) \<and>
            ylabel (an_axes an) = label (surface_designer D designer) ! nat y \<and>
            ylim (an_axes an) = Some (limits (surface_designer D designer) ! nat y) \<and>
            zlabel (an_axes an) =
              label (surface_designer D designer) ! (shape1 (hd pos_history) - 1) \<and>
            zlim (an_axes an) =
              Some (limits (surface_designer D designer) ! (shape1 (hd pos_history) - 1)) \<and>
            shape1 (hd pos_history) - 1 < length (label (surface_designer D designer)) \<and>
            shape1 (hd pos_history) - 1 < length (limits (surface_designer D designer)))"
proof (intro conjI allI impI)
  show "(\<exists>an. snd (plot_contour D A pos_history canvas title mark designer mesher animator
                     n_processes x y best_pos) = Inr an) \<longleftrightarrow>
          contour_defined (contour_designer D designer) pos_history mesher n_processes x y best_pos"
    by (rule plot_contour_returns_iff)
  show "(\<exists>an. snd (plot_surface D A pos_history canvas title designer mesher animator mark
                     n_processes x y best_pos) = Inr an) \<longleftrightarrow>
          surface_defined (surface_designer D designer) pos_history mesher n_processes x y best_pos"
    by (rule plot_surface_returns_iff)
next
  fix an
  let ?d = "contour_designer D designer"
  assume r: "snd (plot_contour D A pos_history canvas title mark designer mesher animator
                     n_processes x y best_pos) = Inr an"
  note f = plot_contour_Inr [OF r]
  from f(4) assms show "xlabel (an_axes an) = label ?d ! nat x" by simp
  from f(5) assms show "ylabel (an_axes an) = label ?d ! nat y" by simp
  from f(6) assms show "xlim (an_axes an) = Some (limits ?d ! nat x)" by simp
  from f(7) assms show "ylim (an_axes an) = Some (limits ?d ! nat y)" by simp
  from f(1) assms show "nat x < length (label ?d)" "nat x < length (limits ?d)"
      "nat y < length (label ?d)" "nat y < length (limits ?d)"
    by (simp_all add: contour_defined_def valid_index_nonneg)
next
  fix an
  let ?d = "surface_designer D designer"
  assume r: "snd (plot_surface D A pos_history canvas title designer mesher animator mark
                     n_processes x y best_pos) = Inr an"
  note f = plot_surface_Inr [OF r]
  from f(4) assms show "xlabel (an_axes an) = label ?d ! nat x" by simp
  from f(5) assms show "ylabel (an_axes an) = label ?d ! nat y" by simp
  from f(7) assms show "xlim (an_axes an) = Some (limits ?d ! nat x)" by simp
  from f(8) assms show "ylim (an_axes an) = Some (limits ?d ! nat y)" by simp
  from f(1) have "valid_index (shape1 (hd pos_history)) x"
    by (simp add: surface_defined_def)
  then have p: "0 \<le> int (shape1 (hd pos_history)) - 1"
    by (auto dest: valid_index_pos)
  then have n: "nat (int (shape1 (hd pos_history)) - 1) = shape1 (hd pos_history) - 1"
    by (simp add: nat_diff_distrib')
  from f(6) p n show "zlabel (an_axes an) = label ?d ! (shape1 (hd pos_history) - 1)"
    by simp
  from f(9) p n show "zlim (an_axes an) = Some (limits ?d ! (shape1 (hd pos_history) - 1))"
    by simp
  from f(1) p n show "shape1 (hd pos_history) - 1 < length (label ?d)"
      "shape1 (hd pos_history) - 1 < length (limits ?d)"
    by (simp_all add: surface_defined_def valid_index_nonneg)
qed

theorem axis_labels_and_limits_witness:
  "(\<exists>an. snd (plot_contour example_Designer example_Animator example_history None ''Trajectory''
              None (Some example_labels) None None None 1 0 None) = Inr an \<and>
         xlabel (an_axes an) = ''b'' \<and> xlim (an_axes an) = Some (2, 3) \<and>
         ylabel (an_axes an) = ''a'' \<and> ylim (an_axes an) = Some (0, 1)) \<and>
   (\<exists>an. snd (plot_surface example_Designer example_Animator example_history None ''Trajectory''
              (Some example_labels) None None None None 1 0 None) = Inr an \<and>
         xlabel (an_axes an) = ''b'' \<and> xlim (an_axes an) = Some (2, 3) \<and>
         ylabel (an_axes an) = ''a'' \<and> ylim (an_axes an) = Some (0, 1) \<and>
         zlabel (an_axes an) = ''fitness'' \<and> zlim (an_axes an) = Some (4, 5))"
proof -
  note t = axis_labels_and_limits [where x = 1 and y = 0 and D = example_Designer
      and A = example_Animator and pos_history = example_history and canvas = None
      and title = "''Trajectory''" and mark = None and designer = "Some example_labels"
      and mesher = None and animator = None and n_processes = None and best_pos = None,
      simplified]
  have d: "contour_designer example_Designer (Some example_labels) = example_labels"
      "surface_designer example_Designer (Some example_labels) = example_labels"
    by (simp_all add: contour_designer_def surface_designer_def)
  have v: "label example_labels ! 1 = ''b''" "label example_labels ! 0 = ''a''"
      "limits example_labels ! 1 = (2, 3)" "limits example_labels ! 0 = (0, 1)"
      "label example_labels ! (shape1 (hd example_history) - 1) = ''fitness''"
      "limits example_labels ! (shape1 (hd example_history) - 1) = (4, 5)"
    by (simp_all add: example_labels_def example_history_def shape1_def)
  from t example_labels_defined(1) d obtain an where
    a: "snd (plot_contour example_Designer example_Animator example_history None ''Trajectory''
              None (Some example_labels) None None None 1 0 None) = Inr an"
    by blast
  from t example_labels_defined(2) d obtain an3 where
    b: "snd (plot_surface example_Designer example_Animator example_history None ''Trajectory''
              (Some example_labels) None None None None 1 0 None) = Inr an3"
    by blast
  from t a v have "xlabel (an_axes an) = ''b'' \<and> xlim (an_axes an) = Some (2, 3) \<and>
      ylabel (an_axes an) = ''a'' \<and> ylim (an_axes an) = Some (0, 1)"
    by (simp add: d)
  moreover from t b have "xlabel (an_axes an3) = ''b'' \<and> xlim (an_axes an3) = Some (2, 3) \<and>
      ylabel (an_axes an3) = ''a'' \<and> ylim (an_axes an3) = Some (0, 1) \<and>
      zlabel (an_axes an3) = ''fitness'' \<and> zlim (an_axes an3) = Some (4, 5)"
    using v by (simp add: d)
  ultimately show ?thesis
    using a b by blast
qed

section \<open>The other dimensions do not reach the animation\<close>

text \<open>
  Claim C9. Two position histories of the same shape that agree on the columns \<^verbatim>\<open>x\<close> and
  \<^verbatim>\<open>y\<close> (where these are valid indices) give, with the other arguments equal, the same
  result of \<^verbatim>\<open>plot_contour\<close>: the same warnings and the same exception or animation, hence
  the same frames. This holds with and without a mesher.
\<close>

theorem plot_contour_noninterference:
  assumes "map (map length) ph1 = map (map length) ph2"
    and "valid_index (shape1 (hd ph1)) x \<Longrightarrow>
           history_column ph1 (col_of (shape1 (hd ph1)) x) =
           history_column ph2 (col_of (shape1 (hd ph1)) x)"
    and "valid_index (shape1 (hd ph1)) y \<Longrightarrow>
           history_column ph1 (col_of (shape1 (hd ph1)) y) =
           history_column ph2 (col_of (shape1 (hd ph1)) y)"
  shows "plot_contour D A ph1 canvas title mark designer mesher animator n_processes x y best_pos =
         plot_contour D A ph2 canvas title mark designer mesher animator n_processes x y best_pos"
proof (cases ph1)
  case Nil
  with same_shape_facts(4) [OF assms(1)] have "ph2 = []" by simp
  with Nil show ?thesis by simp
next
  case (Cons f1 r1)
  with same_shape_facts(4) [OF assms(1)] obtain f2 r2 where c2: "ph2 = f2 # r2"
    by (cases ph2) auto
  have t: "take_columns (f1 # r1) [x, y] = take_columns (f2 # r2) [x, y]"
    using take_columns_agree [OF assms] by (simp add: Cons c2)
  have s: "shape1 f1 = shape1 f2"
    using same_shape_facts(3) [OF assms(1)] by (simp add: Cons c2)
  have l: "length r1 = length r2"
    using same_shape_facts(1) [OF assms(1)] by (simp add: Cons c2)
  show ?thesis
    by (simp add: Cons c2 plot_contour_def py_index_first next_do_lift_Inr Let_def t s l
        del: upt_Suc)
qed

theorem plot_contour_noninterference_witness:
  "example_history \<noteq> other_history \<and>
   plot_contour example_Designer example_Animator example_history None ''Trajectory'' None None
     None None None 0 1 None =
   plot_contour example_Designer example_Animator other_history None ''Trajectory'' None None
     None None None 0 1 None"
proof -
  have d: "example_history \<noteq> other_history"
    by (simp add: example_history_def other_history_def)
  have s: "map (map length) example_history = map (map length) other_history"
    by (simp add: example_history_def other_history_def)
  have c: "history_column example_history (col_of (shape1 (hd example_history)) 0) =
           history_column other_history (col_of (shape1 (hd example_history)) 0)"
      "history_column example_history (col_of (shape1 (hd example_history)) 1) =
           history_column other_history (col_of (shape1 (hd example_history)) 1)"
    by (simp_all add: example_history_def other_history_def history_column_def)
  from d plot_contour_noninterference [OF s c] show ?thesis
    by blast
qed

end
